theory Spec2Isabelle
  imports Complex_Main "HOL-Library.Sublist" "HOL-Library.Char_ord"
    "HOL-Library.List_Lexorder" "HOL-Library.Product_Lexorder"
begin

section \<open>Strings\<close>

text \<open>
  Python strings are modelled as \<^typ>\<open>string\<close>. The case mappings and the whitespace test
  are those of Python on ASCII text, which is what the flight feed and the tables of the
  program contain: \<open>str.lower\<close> and \<open>str.upper\<close> exchange \<open>A..Z\<close> and \<open>a..z\<close>, and
  \<open>str.strip\<close> removes the characters 9..13, 28..31 and 32 from both ends.
\<close>

definition lower_char :: "char \<Rightarrow> char" where
  "lower_char c =
     (if (65::nat) \<le> of_char c \<and> of_char c \<le> (90::nat) then char_of (of_char c + (32::nat)) else c)"

definition upper_char :: "char \<Rightarrow> char" where
  "upper_char c =
     (if (97::nat) \<le> of_char c \<and> of_char c \<le> (122::nat) then char_of (of_char c - (32::nat)) else c)"

definition lower :: "string \<Rightarrow> string" where
  "lower s = map lower_char s"

definition upper :: "string \<Rightarrow> string" where
  "upper s = map upper_char s"

definition isspace :: "char \<Rightarrow> bool" where
  "isspace c = (((9::nat) \<le> of_char c \<and> of_char c \<le> (13::nat)) \<or>
                ((28::nat) \<le> of_char c \<and> of_char c \<le> (32::nat)))"

definition strip :: "string \<Rightarrow> string" where
  "strip s = rev (dropWhile isspace (rev (dropWhile isspace s)))"

text \<open>\<open>d.get(key, default)\<close> on a value that the JSON object may lack.\<close>

definition get_or :: "'a option \<Rightarrow> 'a \<Rightarrow> 'a" where
  "get_or v d = (case v of None \<Rightarrow> d | Some x \<Rightarrow> x)"

text \<open>\<open>a or b\<close> on strings: the empty string is falsy.\<close>

definition str_or :: "string \<Rightarrow> string \<Rightarrow> string" where
  "str_or a b = (if a = [] then b else a)"

section \<open>Dictionaries\<close>

text \<open>
  A Python \<open>dict\<close> keeps its keys in insertion order. Storing under a key that is already
  there replaces the value and leaves the key where it was; a dictionary display
  \<open>{k1: v1, k2: v2, ...}\<close> stores its entries from left to right.
\<close>

type_synonym ('k, 'v) dict = "('k \<times> 'v) list"

fun dict_set :: "('k, 'v) dict \<Rightarrow> 'k \<Rightarrow> 'v \<Rightarrow> ('k, 'v) dict" where
  "dict_set [] k v = [(k, v)]"
| "dict_set ((k', v') # d) k v =
     (if k' = k then (k', v) # d else (k', v') # dict_set d k v)"

definition dict_literal :: "('k \<times> 'v) list \<Rightarrow> ('k, 'v) dict" where
  "dict_literal kvs = foldl (\<lambda>d (k, v). dict_set d k v) [] kvs"

definition dict_get :: "('k, 'v) dict \<Rightarrow> 'k \<Rightarrow> 'v option" where
  "dict_get d k = map_of d k"

definition dict_contains :: "('k, 'v) dict \<Rightarrow> 'k \<Rightarrow> bool" where
  "dict_contains d k = (dict_get d k \<noteq> None)"

section \<open>The first variant: built-in tables\<close>

definition PRIORITY_COUNTRIES :: "string set" where
  "PRIORITY_COUNTRIES =
     {''USA'', ''Russia'', ''Czech Rep'', ''Ukraine'', ''China'', ''North Korea''}"

text \<open>
  A value of \<open>PRESIDENTIAL_AIRCRAFT\<close>; each of its 169 entries has the four keys
  \<open>country\<close>, \<open>description\<close>, \<open>registration\<close> and \<open>type\<close>.
\<close>

record known =
  known_country :: string
  known_description :: string
  known_registration :: string
  known_type :: string

definition K :: "string \<Rightarrow> string \<Rightarrow> string \<Rightarrow> string \<Rightarrow> known" where
  "K c d r t =
     \<lparr>known_country = c, known_description = d, known_registration = r, known_type = t\<rparr>"

definition PRESIDENTIAL_AIRCRAFT_entries :: "(string \<times> known) list" where
  "PRESIDENTIAL_AIRCRAFT_entries = [
  (''ae001f'', K ''USA'' ''Air Force One (VC-25A)'' ''82-8000'' ''VC25''),
  (''ae0020'', K ''USA'' ''Air Force One (VC-25A)'' ''92-9000'' ''VC25''),
  (''ae001c'', K ''USA'' ''Air Force Two (C-32A)'' ''98-0001'' ''C32''),
  (''ae001d'', K ''USA'' ''Air Force Two (C-32A)'' ''98-0002'' ''C32''),
  (''ae4a48'', K ''USA'' ''C-32A VIP Transport'' ''99-6143'' ''C32''),
  (''ae01fa'', K ''USA'' ''C-40B Executive Transport'' ''01-0040'' ''C40''),
  (''ae01fb'', K ''USA'' ''C-40B Executive Transport'' ''01-0041'' ''C40''),
  (''ae010c'', K ''USA'' ''C-37A Gulfstream VIP'' ''97-0400'' ''C37A''),
  (''ae010d'', K ''USA'' ''C-37A Gulfstream VIP'' ''97-0401'' ''C37A''),
  (''ae0100'', K ''USA'' ''C-37B Gulfstream VIP'' ''09-0525'' ''C37B''),
  (''ae0101'', K ''USA'' ''C-37B Gulfstream VIP'' ''09-0540'' ''C37B''),
  (''ae0414'', K ''USA'' ''E-4B Nightwatch NAOC'' ''73-1676'' ''E4B''),
  (''ae0415'', K ''USA'' ''E-4B Nightwatch NAOC'' ''74-0787'' ''E4B''),
  (''ae0416'', K ''USA'' ''E-4B Nightwatch NAOC'' ''75-0125'' ''E4B''),
  (''ae0417'', K ''USA'' ''E-4B Nightwatch NAOC'' ''75-0126'' ''E4B''),
  (''ae0419'', K ''USA'' ''E-6B Mercury TACAMO'' ''162782'' ''E6''),
  (''ae041a'', K ''USA'' ''E-6B Mercury TACAMO'' ''162783'' ''E6''),
  (''ae041b'', K ''USA'' ''E-6B Mercury TACAMO'' ''163918'' ''E6''),
  (''155026'', K ''Russia'' ''IL-96-300PU Presidential'' ''RA-96016'' ''IL96''),
  (''155027'', K ''Russia'' ''IL-96-300PU Presidential'' ''RA-96017'' ''IL96''),
  (''155028'', K ''Russia'' ''IL-96-300PU Presidential'' ''RA-96018'' ''IL96''),
  (''155029'', K ''Russia'' ''IL-96-300PU Presidential'' ''RA-96019'' ''IL96''),
  (''15502a'', K ''Russia'' ''IL-96-300PU Presidential'' ''RA-96020'' ''IL96''),
  (''15502b'', K ''Russia'' ''IL-96-300PU Presidential'' ''RA-96021'' ''IL96''),
  (''15502c'', K ''Russia'' ''IL-96-300PU Presidential'' ''RA-96022'' ''IL96''),
  (''150d4e'', K ''Russia'' ''Tu-214PU Government'' ''RA-64517'' ''T214''),
  (''150d4f'', K ''Russia'' ''Tu-214PU Government'' ''RA-64520'' ''T214''),
  (''150125'', K ''Russia'' ''IL-96-400 Presidential'' ''RA-96102'' ''IL96''),
  (''155001'', K ''Russia'' ''Tu-214SR Government'' ''RA-64515'' ''T214''),
  (''155002'', K ''Russia'' ''Tu-214SR Government'' ''RA-64516'' ''T214''),
  (''145624'', K ''Russia'' ''Il-80 Doomsday Plane'' ''RA-86147'' ''IL86''),
  (''145625'', K ''Russia'' ''Il-80 Doomsday Plane'' ''RA-86148'' ''IL86''),
  (''780a71'', K ''China'' ''B747-8i Presidential'' ''B-2479'' ''B748''),
  (''780a72'', K ''China'' ''B747-8i VIP'' ''B-2480'' ''B748''),
  (''780b71'', K ''China'' ''B737-800 Government'' ''B-4026'' ''B738''),
  (''780b72'', K ''China'' ''B737-800 Government'' ''B-4027'' ''B738''),
  (''780c01'', K ''China'' ''A319CJ Government'' ''B-4090'' ''A319''),
  (''780c02'', K ''China'' ''A319CJ Government'' ''B-4091'' ''A319''),
  (''781011'', K ''China'' ''PLAAF VIP Transport'' ''B-4025'' ''B738''),
  (''720101'', K ''North Korea'' ''IL-62M Chammae-1'' ''P-618'' ''IL62''),
  (''720102'', K ''North Korea'' ''IL-62M Government'' ''P-885'' ''IL62''),
  (''720201'', K ''North Korea'' ''Tu-154 Government'' ''P-552'' ''T154''),
  (''720301'', K ''North Korea'' ''AN-148 Government'' ''P-671'' ''A148''),
  (''720302'', K ''North Korea'' ''AN-148 Government'' ''P-672'' ''A148''),
  (''508a28'', K ''Ukraine'' ''A319CJ Presidential'' ''UR-ABA'' ''A319''),
  (''508016'', K ''Ukraine'' ''IL-62M Government'' ''UR-86527'' ''IL62''),
  (''508017'', K ''Ukraine'' ''IL-62M Government'' ''UR-86528'' ''IL62''),
  (''508a01'', K ''Ukraine'' ''An-148 Government'' ''UR-UKR'' ''A148''),
  (''498da4'', K ''Czech Rep'' ''A319CJ Government'' ''OK-GOV'' ''A319''),
  (''498d4a'', K ''Czech Rep'' ''CL-601 Challenger VIP'' ''OK-BYR'' ''CL60''),
  (''498012'', K ''Czech Rep'' ''A319 Air Force'' ''3085'' ''A319''),
  (''498001'', K ''Czech Rep'' ''CASA C-295M'' ''0452'' ''C295''),
  (''498002'', K ''Czech Rep'' ''CASA C-295M'' ''0453'' ''C295''),
  (''43c6c4'', K ''UK'' ''RAF Voyager A330 MRTT'' ''ZZ330'' ''A332''),
  (''43c6c5'', K ''UK'' ''RAF Voyager A330 MRTT'' ''ZZ331'' ''A332''),
  (''43c6c6'', K ''UK'' ''RAF Voyager A330 MRTT'' ''ZZ332'' ''A332''),
  (''43c6c7'', K ''UK'' ''RAF Voyager A330 MRTT'' ''ZZ333'' ''A332''),
  (''43c6c8'', K ''UK'' ''RAF Voyager A330 MRTT'' ''ZZ334'' ''A332''),
  (''43c6c9'', K ''UK'' ''RAF Voyager A330 MRTT'' ''ZZ335'' ''A332''),
  (''43c6d0'', K ''UK'' ''RAF Voyager A330 MRTT'' ''ZZ336'' ''A332''),
  (''43c2f0'', K ''UK'' ''BAe 146 Royal Flight'' ''ZE700'' ''B461''),
  (''43c2f1'', K ''UK'' ''BAe 146 Royal Flight'' ''ZE701'' ''B461''),
  (''3b75a6'', K ''France'' ''A330-200 Cotam 001'' ''F-RARF'' ''A332''),
  (''3b75a5'', K ''France'' ''A330-200 Cotam 002'' ''F-RARE'' ''A332''),
  (''3b7541'', K ''France'' ''Falcon 7X VIP'' ''F-RAFB'' ''FA7X''),
  (''3b7542'', K ''France'' ''Falcon 7X VIP'' ''F-RAFC'' ''FA7X''),
  (''3b7543'', K ''France'' ''Falcon 900 VIP'' ''F-RAFD'' ''F900''),
  (''3b7544'', K ''France'' ''Falcon 2000 VIP'' ''F-RAFE'' ''F2TH''),
  (''3b7545'', K ''France'' ''A340-200 VIP'' ''F-RAJB'' ''A342''),
  (''3b7601'', K ''France'' ''A330 MRTT Phenix'' ''F-UJCA'' ''A332''),
  (''3b7602'', K ''France'' ''A330 MRTT Phenix'' ''F-UJCB'' ''A332''),
  (''3f4615'', K ''Germany'' ''A350-900 Konrad Adenauer'' ''10+01'' ''A359''),
  (''3f4616'', K ''Germany'' ''A350-900 Theodor Heuss'' ''10+02'' ''A359''),
  (''3f4617'', K ''Germany'' ''A350-900 Kurt Schumacher'' ''10+03'' ''A359''),
  (''3f4542'', K ''Germany'' ''A321-200 VIP'' ''15+01'' ''A321''),
  (''3f4543'', K ''Germany'' ''A321-200 VIP'' ''15+02'' ''A321''),
  (''3f4544'', K ''Germany'' ''A319CJ VIP'' ''15+03'' ''A319''),
  (''3f4545'', K ''Germany'' ''A319CJ VIP'' ''15+04'' ''A319''),
  (''3f457c'', K ''Germany'' ''Global 5000 VIP'' ''14+01'' ''GL5T''),
  (''3f457d'', K ''Germany'' ''Global 5000 VIP'' ''14+02'' ''GL5T''),
  (''3f457e'', K ''Germany'' ''Global 5000 VIP'' ''14+03'' ''GL5T''),
  (''3f457f'', K ''Germany'' ''Global 5000 VIP'' ''14+04'' ''GL5T''),
  (''33ff01'', K ''Italy'' ''A340-500 Presidential'' ''I-TALY'' ''A345''),
  (''33ff02'', K ''Italy'' ''A319CJ VIP'' ''MM62243'' ''A319''),
  (''33ff03'', K ''Italy'' ''A319CJ VIP'' ''MM62174'' ''A319''),
  (''33ff10'', K ''Italy'' ''Falcon 900EX VIP'' ''MM62210'' ''F900''),
  (''33ff11'', K ''Italy'' ''Falcon 900EX VIP'' ''MM62211'' ''F900''),
  (''33ff12'', K ''Italy'' ''Falcon 900EX VIP'' ''MM62244'' ''F900''),
  (''34318c'', K ''Spain'' ''A310-300 VIP'' ''T.22-1'' ''A310''),
  (''34318d'', K ''Spain'' ''A310-300 VIP'' ''T.22-2'' ''A310''),
  (''343191'', K ''Spain'' ''Falcon 900 VIP'' ''T.18-1'' ''F900''),
  (''343192'', K ''Spain'' ''Falcon 900 VIP'' ''T.18-2'' ''F900''),
  (''343193'', K ''Spain'' ''Falcon 900 VIP'' ''T.18-3'' ''F900''),
  (''343194'', K ''Spain'' ''Falcon 900 VIP'' ''T.18-4'' ''F900''),
  (''343195'', K ''Spain'' ''Falcon 900 VIP'' ''T.18-5'' ''F900''),
  (''3431a0'', K ''Spain'' ''A400M Atlas'' ''T.23-01'' ''A400''),
  (''489702'', K ''Poland'' ''B737-800 Head of State'' ''SP-LIG'' ''B738''),
  (''489460'', K ''Poland'' ''Gulfstream G550 VIP'' ''0110'' ''G550''),
  (''489461'', K ''Poland'' ''Gulfstream G550 VIP'' ''0111'' ''G550''),
  (''48947e'', K ''Poland'' ''B737-800BBJ VIP'' ''0001'' ''B738''),
  (''48947f'', K ''Poland'' ''B737-800BBJ VIP'' ''0002'' ''B738''),
  (''484101'', K ''Netherlands'' ''B737-700BBJ Royal'' ''PH-GOV'' ''B737''),
  (''484102'', K ''Netherlands'' ''Gulfstream G650 VIP'' ''PH-GVI'' ''G650''),
  (''484110'', K ''Netherlands'' ''KDC-10 Tanker/VIP'' ''T-264'' ''DC10''),
  (''44d001'', K ''Belgium'' ''ERJ-135 VIP'' ''CE-01'' ''E135''),
  (''44d002'', K ''Belgium'' ''ERJ-145 VIP'' ''CE-02'' ''E145''),
  (''44d003'', K ''Belgium'' ''Falcon 7X VIP'' ''CD-01'' ''FA7X''),
  (''44d010'', K ''Belgium'' ''A321 Government'' ''CS-TRJ'' ''A321''),
  (''440101'', K ''Austria'' ''PC-12 VIP'' ''OE-EPM'' ''PC12''),
  (''440102'', K ''Austria'' ''C-130K Hercules'' ''8T-CA'' ''C130''),
  (''440103'', K ''Austria'' ''C-130K Hercules'' ''8T-CB'' ''C130''),
  (''440104'', K ''Austria'' ''C-130K Hercules'' ''8T-CC'' ''C130''),
  (''4b0011'', K ''Switzerland'' ''Citation Excel VIP'' ''T-784'' ''C56X''),
  (''4b0012'', K ''Switzerland'' ''PC-24 VIP'' ''T-786'' ''PC24''),
  (''4b0013'', K ''Switzerland'' ''Falcon 900 VIP'' ''T-785'' ''F900''),
  (''4a8001'', K ''Sweden'' ''Gulfstream G550 VIP'' ''102001'' ''G550''),
  (''4a8002'', K ''Sweden'' ''Gulfstream G550 VIP'' ''102002'' ''G550''),
  (''4a8003'', K ''Sweden'' ''S102B Korpen SIGINT'' ''102003'' ''G550''),
  (''478101'', K ''Norway'' ''Falcon 7X VIP'' ''053'' ''FA7X''),
  (''478102'', K ''Norway'' ''Falcon 7X VIP'' ''054'' ''FA7X''),
  (''478103'', K ''Norway'' ''Falcon 20 EW'' ''041'' ''FA20''),
  (''459901'', K ''Denmark'' ''CL-604 Challenger VIP'' ''C-080'' ''CL60''),
  (''459902'', K ''Denmark'' ''CL-604 Challenger VIP'' ''C-168'' ''CL60''),
  (''459903'', K ''Denmark'' ''CL-604 Challenger VIP'' ''C-172'' ''CL60''),
  (''461e01'', K ''Finland'' ''CL-604 Challenger VIP'' ''CC-1'' ''CL60''),
  (''461e02'', K ''Finland'' ''LJ-35 Learjet VIP'' ''LJ-1'' ''LJ35''),
  (''461e03'', K ''Finland'' ''LJ-35 Learjet VIP'' ''LJ-2'' ''LJ35''),
  (''490501'', K ''Portugal'' ''Falcon 50 VIP'' ''17401'' ''FA50''),
  (''490502'', K ''Portugal'' ''Falcon 50 VIP'' ''17402'' ''FA50''),
  (''490503'', K ''Portugal'' ''Falcon 50 VIP'' ''17403'' ''FA50''),
  (''468c01'', K ''Greece'' ''ERJ-135 VIP'' ''145-208'' ''E135''),
  (''468c02'', K ''Greece'' ''ERJ-135 VIP'' ''145-209'' ''E135''),
  (''468c03'', K ''Greece'' ''Gulfstream V VIP'' ''678'' ''GLF5''),
  (''47a001'', K ''Hungary'' ''Falcon 7X VIP'' ''606'' ''FA7X''),
  (''47a002'', K ''Hungary'' ''Dassault 900LX VIP'' ''604'' ''F900''),
  (''47a003'', K ''Hungary'' ''A319CJ VIP'' ''605'' ''A319''),
  (''4a1001'', K ''Romania'' ''B737-700BBJ VIP'' ''YR-BBJ'' ''B737''),
  (''4a1002'', K ''Romania'' ''C-130H Hercules'' ''5930'' ''C130''),
  (''450501'', K ''Bulgaria'' ''Falcon 2000 VIP'' ''LZ-OOI'' ''F2TH''),
  (''450502'', K ''Bulgaria'' ''A319 Government'' ''LZ-AOB'' ''A319''),
  (''501c01'', K ''Croatia'' ''CL-604 Challenger VIP'' ''9A-CRO'' ''CL60''),
  (''4d0001'', K ''Slovenia'' ''Falcon 2000 VIP'' ''S5-BAV'' ''F2TH''),
  (''506c01'', K ''Slovakia'' ''Fokker 100 VIP'' ''OM-BYA'' ''F100''),
  (''506c02'', K ''Slovakia'' ''Fokker 100 VIP'' ''OM-BYB'' ''F100''),
  (''511017'', K ''Estonia'' ''CRJ-700 Government'' ''ES-PVG'' ''CRJ7''),
  (''502c03'', K ''Latvia'' ''A220-300 Government'' ''YL-LFB'' ''BCS3''),
  (''502c17'', K ''Latvia'' ''L-410 Government'' ''YL-KAM'' ''L410''),
  (''503c01'', K ''Lithuania'' ''L-410 Government'' ''01'' ''L410''),
  (''503c02'', K ''Lithuania'' ''C-27J Spartan'' ''02'' ''C27J''),
  (''4c8001'', K ''Ireland'' ''LJ-45 Learjet VIP'' ''252'' ''LJ45''),
  (''4c8002'', K ''Ireland'' ''LJ-45 Learjet VIP'' ''253'' ''LJ45''),
  (''4c8003'', K ''Ireland'' ''G280 Government'' ''280'' ''G280''),
  (''4b8001'', K ''Turkey'' ''A330-200 VIP'' ''TC-TUR'' ''A332''),
  (''4b8002'', K ''Turkey'' ''A319CJ VIP'' ''TC-ANA'' ''A319''),
  (''4b8003'', K ''Turkey'' ''Gulfstream 550 VIP'' ''TC-DAP'' ''G550''),
  (''4b8004'', K ''Turkey'' ''B737-800BBJ VIP'' ''TC-ATA'' ''B738''),
  (''151db8'', K ''Belarus'' ''B737-800 Presidential'' ''EW-001PA'' ''B738''),
  (''151db9'', K ''Belarus'' ''B767 VIP'' ''EW-001PB'' ''B767''),
  (''151dc0'', K ''Belarus'' ''Tu-134 Government'' ''EW-65149'' ''T134''),
  (''4d0101'', K ''Serbia'' ''Falcon 900 VIP'' ''YU-FSS'' ''F900''),
  (''4d0102'', K ''Serbia'' ''ERJ-135 VIP'' ''YU-SRB'' ''E135''),
  (''501901'', K ''Albania'' ''AS365 Dauphin VIP'' ''ZA-BDF'' ''AS65''),
  (''4d0301'', K ''N. Macedonia'' ''LJ-60 Learjet VIP'' ''Z3-MKD'' ''LJ60''),
  (''4d0201'', K ''Montenegro'' ''Falcon 50 VIP'' ''4O-MNE'' ''FA50''),
  (''4d0401'', K ''Bosnia'' ''HUEY II VIP'' ''T9-HAD'' ''HUEY''),
  (''4b0501'', K ''Luxembourg'' ''LJ-45 Learjet VIP'' ''NAT-01'' ''LJ45''),
  (''4ccc01'', K ''Iceland'' ''DHC-8 Coast Guard'' ''TF-SIF'' ''DH8D''),
  (''4d8001'', K ''Cyprus'' ''A319CJ Government'' ''5B-CYP'' ''A319''),
  (''4d9001'', K ''Malta'' ''B200 King Air VIP'' ''AS1428'' ''BE20'')]"

definition PRESIDENTIAL_AIRCRAFT :: "(string, known) dict" where
  "PRESIDENTIAL_AIRCRAFT = dict_literal PRESIDENTIAL_AIRCRAFT_entries"

text \<open>The entries of the display \<open>VIP_CALLSIGN_PATTERNS = {...}\<close>, as they are written.\<close>

definition VIP_CALLSIGN_PATTERNS_entries :: "(string \<times> string) list" where
  "VIP_CALLSIGN_PATTERNS_entries = [
  (''AF1'', ''USA''), (''AF2'', ''USA''), (''SAM'', ''USA''), (''EXEC'', ''USA''),
  (''VENUS'', ''USA''), (''RSD'', ''Russia''), (''ROSSIYA'', ''Russia''), (''RFF'', ''Russia''),
  (''RUSS'', ''Russia''), (''RFAF'', ''Russia''), (''CZAF'', ''Czech Rep''), (''CEF'', ''Czech Rep''),
  (''CZA'', ''Czech Rep''), (''UKR'', ''Ukraine''), (''UKRAINA'', ''Ukraine''), (''UKF'', ''Ukraine''),
  (''CCA'', ''China''), (''CHN'', ''China''), (''CHINA'', ''China''), (''CXA'', ''China''),
  (''KOR'', ''North Korea''), (''PRK'', ''North Korea''), (''RRR'', ''UK''), (''RFR'', ''UK''),
  (''KRF'', ''UK''), (''KITTY'', ''UK''), (''ASCOT'', ''UK''), (''COTAM'', ''France''),
  (''CTM'', ''France''), (''FAF'', ''France''), (''FRF'', ''France''), (''GAF'', ''Germany''),
  (''GAFTT'', ''Germany''), (''GERM'', ''Germany''), (''IAM'', ''Italy''), (''ITAF'', ''Italy''),
  (''AME'', ''Spain''), (''SPANISH'', ''Spain''), (''SPA'', ''Spain''), (''PLF'', ''Poland''),
  (''POLISH'', ''Poland''), (''POL'', ''Poland''), (''NAF'', ''Netherlands''), (''NLD'', ''Netherlands''),
  (''BAF'', ''Belgium''), (''BEL'', ''Belgium''), (''AUA'', ''Austria''), (''OST'', ''Austria''),
  (''SUI'', ''Switzerland''), (''HEB'', ''Switzerland''), (''SVF'', ''Sweden''), (''SWE'', ''Sweden''),
  (''NOW'', ''Norway''), (''NOR'', ''Norway''), (''DAF'', ''Denmark''), (''DNK'', ''Denmark''),
  (''FAF'', ''Finland''), (''FIN'', ''Finland''), (''FINNAF'', ''Finland''), (''PAF'', ''Portugal''),
  (''POR'', ''Portugal''), (''HAF'', ''Greece''), (''GRC'', ''Greece''), (''HDF'', ''Hungary''),
  (''HUN'', ''Hungary''), (''ROF'', ''Romania''), (''ROU'', ''Romania''), (''BUF'', ''Bulgaria''),
  (''BGR'', ''Bulgaria''), (''HRZ'', ''Croatia''), (''CRO'', ''Croatia''), (''SVN'', ''Slovenia''),
  (''SLO'', ''Slovenia''), (''SLK'', ''Slovakia''), (''SVK'', ''Slovakia''), (''EST'', ''Estonia''),
  (''EEF'', ''Estonia''), (''LAT'', ''Latvia''), (''LVA'', ''Latvia''), (''LYF'', ''Lithuania''),
  (''LTU'', ''Lithuania''), (''IRL'', ''Ireland''), (''THK'', ''Turkey''), (''TUAF'', ''Turkey''),
  (''TCGF'', ''Turkey''), (''BRU'', ''Belarus''), (''BLR'', ''Belarus''), (''SRB'', ''Serbia''),
  (''YUG'', ''Serbia''), (''ALB'', ''Albania''), (''MKD'', ''N. Macedonia''), (''MNE'', ''Montenegro''),
  (''BIH'', ''Bosnia''), (''LUX'', ''Luxembourg''), (''ICE'', ''Iceland''), (''CYP'', ''Cyprus''),
  (''MLT'', ''Malta'')]"

definition VIP_CALLSIGN_PATTERNS :: "(string, string) dict" where
  "VIP_CALLSIGN_PATTERNS = dict_literal VIP_CALLSIGN_PATTERNS_entries"

section \<open>Geolocation with its cache\<close>

text \<open>
  Coordinates are JSON numbers. The program tests them for truth (\<open>lat and lon\<close>, false
  for \<open>None\<close> and for zero) and formats them with \<open>:.2f\<close>; both depend on the value of
  the number only, so a coordinate is modelled by the rational number that the float
  denotes. \<open>:.2f\<close> rounds the value to the nearest hundredth, a tie to the even one, and
  keeps the sign of a negative value that rounds to zero.
\<close>

definition round_half_even :: "rat \<Rightarrow> int" where
  "round_half_even q =
     (if q - of_int \<lfloor>q\<rfloor> < 1 / 2 then \<lfloor>q\<rfloor>
      else if 1 / 2 < q - of_int \<lfloor>q\<rfloor> then \<lfloor>q\<rfloor> + 1
      else if even \<lfloor>q\<rfloor> then \<lfloor>q\<rfloor> else \<lfloor>q\<rfloor> + 1)"

definition digit_char :: "nat \<Rightarrow> char" where
  "digit_char d = char_of (48 + d)"

fun show_nat :: "nat \<Rightarrow> string" where
  "show_nat n =
     (if n < 10 then [digit_char n] else show_nat (n div 10) @ [digit_char (n mod 10)])"

declare show_nat.simps [simp del]

definition fmt2f :: "rat \<Rightarrow> string" where
  "fmt2f x =
     (let n = nat (round_half_even (\<bar>x\<bar> * 100)) in
      (if x < 0 then ''-'' else []) @ show_nat (n div 100) @ ''.'' @
      [digit_char ((n mod 100) div 10), digit_char (n mod 10)])"

definition cache_key :: "rat \<Rightarrow> rat \<Rightarrow> string" where
  "cache_key la lo = fmt2f la @ '','' @ fmt2f lo"

text \<open>
  The geocoder \<open>rg.search\<close> is an external library: it raises or returns a list of result
  dictionaries. Whether the library could be imported is \<open>RG_AVAILABLE\<close>.
\<close>

datatype rg_outcome = RgRaises | RgReturns "(string, string) dict list"

record env =
  RG_AVAILABLE :: bool
  rg_search :: "rat \<Rightarrow> rat \<Rightarrow> rg_outcome"

text \<open>
  The module-level \<open>_location_cache\<close>, with the log of the coordinates on which the
  geocoder has been invoked.
\<close>

record geo =
  location_cache :: "(string, string) dict"
  rg_calls :: "(rat \<times> rat) list"

definition country_names :: "(string, string) dict" where
  "country_names = dict_literal [
  (''US'', ''USA''), (''GB'', ''UK''), (''DE'', ''Germany''), (''FR'', ''France''),
  (''IT'', ''Italy''), (''ES'', ''Spain''), (''PL'', ''Poland''), (''CZ'', ''Czechia''),
  (''UA'', ''Ukraine''), (''RU'', ''Russia''), (''CN'', ''China''), (''KP'', ''N.Korea''),
  (''NL'', ''Netherlands''), (''BE'', ''Belgium''), (''AT'', ''Austria''), (''CH'', ''Switzerland''),
  (''SE'', ''Sweden''), (''NO'', ''Norway''), (''DK'', ''Denmark''), (''FI'', ''Finland''),
  (''PT'', ''Portugal''), (''GR'', ''Greece''), (''HU'', ''Hungary''), (''RO'', ''Romania''),
  (''BG'', ''Bulgaria''), (''HR'', ''Croatia''), (''SI'', ''Slovenia''), (''SK'', ''Slovakia''),
  (''EE'', ''Estonia''), (''LV'', ''Latvia''), (''LT'', ''Lithuania''), (''IE'', ''Ireland''),
  (''TR'', ''Turkey''), (''BY'', ''Belarus''), (''RS'', ''Serbia''), (''AL'', ''Albania''),
  (''MK'', ''N.Macedonia''), (''ME'', ''Montenegro''), (''BA'', ''Bosnia''), (''LU'', ''Luxembourg''),
  (''IS'', ''Iceland''), (''CY'', ''Cyprus''), (''MT'', ''Malta''), (''CA'', ''Canada''),
  (''MX'', ''Mexico''), (''JP'', ''Japan''), (''KR'', ''S.Korea''), (''AU'', ''Australia''),
  (''NZ'', ''New Zealand''), (''BR'', ''Brazil''), (''AR'', ''Argentina''), (''IN'', ''India''),
  (''SA'', ''Saudi Arabia''), (''AE'', ''UAE''), (''IL'', ''Israel''), (''EG'', ''Egypt'')]"

text \<open>
  \<open>get_location\<close> of both variants; they differ in the table \<open>country_names\<close> only,
  which is the first argument here.
\<close>

definition get_location_with ::
  "(string, string) dict \<Rightarrow> env \<Rightarrow> rat option \<Rightarrow> rat option \<Rightarrow> geo \<Rightarrow> string \<times> geo" where
  "get_location_with names e la lo g =
     (if \<not> RG_AVAILABLE e \<or> la = None \<or> lo = None then ([], g)
      else
        let key = cache_key (the la) (the lo) in
        if dict_contains (location_cache g) key then (the (dict_get (location_cache g) key), g)
        else
          let g1 = g\<lparr>rg_calls := rg_calls g @ [(the la, the lo)]\<rparr> in
          case rg_search e (the la) (the lo) of
            RgRaises \<Rightarrow> ([], g1)
          | RgReturns results \<Rightarrow>
              (case results of
                 [] \<Rightarrow> ([], g1)
               | result # _ \<Rightarrow>
                   let cc = get_or (dict_get result ''cc'') [];
                       location = get_or (dict_get names cc) cc
                   in (location, g1\<lparr>location_cache := dict_set (location_cache g1) key location\<rparr>)))"

definition get_location :: "env \<Rightarrow> rat option \<Rightarrow> rat option \<Rightarrow> geo \<Rightarrow> string \<times> geo" where
  "get_location = get_location_with country_names"

section \<open>The first variant: parsing and classification\<close>

text \<open>
  One aircraft object of the feed. A field is \<open>None\<close> when the JSON object lacks the key
  (or holds \<open>null\<close>, for the fields read without a default).
\<close>

datatype alt_baro = AltFeet rat | AltGround

record ac_data =
  ac_hex :: "string option"
  ac_flight :: "string option"
  ac_r :: "string option"
  ac_t :: "string option"
  ac_lat :: "rat option"
  ac_lon :: "rat option"
  ac_alt_baro :: "alt_baro option"
  ac_gs :: "rat option"
  ac_track :: "rat option"
  ac_baro_rate :: "rat option"
  ac_squawk :: "string option"
  ac_seen :: "rat option"

record AircraftInfo =
  hex_code :: string
  callsign :: string
  registration :: string
  aircraft_type :: string
  country :: string
  description :: string
  latitude :: "rat option"
  longitude :: "rat option"
  altitude :: "rat option"
  ground_speed :: "rat option"
  heading :: "rat option"
  vertical_rate :: "rat option"
  squawk :: string
  on_ground :: bool
  last_seen :: rat
  over_country :: string

text \<open>Truth of an optional number: \<open>None\<close> and zero are false.\<close>

definition truthy :: "rat option \<Rightarrow> bool" where
  "truthy v = (v \<noteq> None \<and> v \<noteq> Some 0)"

definition parse_aircraft ::
  "env \<Rightarrow> ac_data \<Rightarrow> (string, known) dict \<Rightarrow> geo \<Rightarrow> AircraftInfo \<times> geo" where
  "parse_aircraft e ac known_aircraft g =
     (let hx = lower (get_or (ac_hex ac) []);
          kn = dict_get known_aircraft hx;
          la = ac_lat ac;
          lo = ac_lon ac;
          (oc, g') = (if truthy la \<and> truthy lo then get_location e la lo g else ([], g))
      in (\<lparr>hex_code = upper hx,
           callsign = str_or (strip (get_or (ac_flight ac) [])) ''N/A'',
           registration = str_or (get_or (ac_r ac) [])
                            (case kn of None \<Rightarrow> ''N/A'' | Some k \<Rightarrow> known_registration k),
           aircraft_type = str_or (get_or (ac_t ac) [])
                             (case kn of None \<Rightarrow> ''N/A'' | Some k \<Rightarrow> known_type k),
           country = (case kn of None \<Rightarrow> ''Unknown'' | Some k \<Rightarrow> known_country k),
           description =
             (case kn of None \<Rightarrow> ''Military Aircraft'' | Some k \<Rightarrow> known_description k),
           latitude = la,
           longitude = lo,
           altitude = (case ac_alt_baro ac of
                         None \<Rightarrow> None | Some AltGround \<Rightarrow> Some 0 | Some (AltFeet a) \<Rightarrow> Some a),
           ground_speed = ac_gs ac,
           heading = ac_track ac,
           vertical_rate = ac_baro_rate ac,
           squawk = get_or (ac_squawk ac) ''N/A'',
           on_ground = (ac_alt_baro ac = Some AltGround),
           last_seen = get_or (ac_seen ac) 0,
           over_country = oc\<rparr>, g'))"

text \<open>
  The inner loop over \<open>VIP_CALLSIGN_PATTERNS.items()\<close>: the country of the first entry,
  in the order of the dictionary, whose key the callsign starts with.
\<close>

fun match_callsign :: "(string, string) dict \<Rightarrow> string \<Rightarrow> string option" where
  "match_callsign [] cs = None"
| "match_callsign ((pattern, ctry) # items) cs =
     (if prefix pattern cs then Some ctry else match_callsign items cs)"

text \<open>\<open>if matched_country:\<close> is false for \<open>None\<close> and for the empty string.\<close>

definition matched :: "string option \<Rightarrow> bool" where
  "matched m = (m \<noteq> None \<and> m \<noteq> Some [])"

record api_response =
  resp_ac :: "ac_data list option"
  resp_msg :: "string option"

text \<open>
  The loop of \<open>find_presidential_aircraft\<close> over the aircraft of the snapshot, with the
  list \<open>presidential\<close> and the set \<open>seen_hex\<close> built so far.
\<close>

fun presidential_loop ::
  "env \<Rightarrow> ac_data list \<Rightarrow> AircraftInfo list \<Rightarrow> string set \<Rightarrow> geo \<Rightarrow> AircraftInfo list \<times> geo" where
  "presidential_loop e [] presidential seen_hex g = (presidential, g)"
| "presidential_loop e (ac # rest) presidential seen_hex g =
     (let hx = lower (get_or (ac_hex ac) []);
          cs = upper (strip (get_or (ac_flight ac) []))
      in if hx \<in> seen_hex then presidential_loop e rest presidential seen_hex g
         else if dict_contains PRESIDENTIAL_AIRCRAFT hx then
           (let (info, g') = parse_aircraft e ac PRESIDENTIAL_AIRCRAFT g
            in presidential_loop e rest (presidential @ [info]) (insert hx seen_hex) g')
         else
           (let matched_country = match_callsign VIP_CALLSIGN_PATTERNS cs
            in if matched matched_country then
                 (let (info, g') = parse_aircraft e ac PRESIDENTIAL_AIRCRAFT g;
                      info' = info\<lparr>country := the matched_country,
                                    description := ''VIP Flight ('' @ cs @ '')''\<rparr>
                  in presidential_loop e rest (presidential @ [info']) (insert hx seen_hex) g')
               else presidential_loop e rest presidential seen_hex g))"

definition find_presidential_aircraft ::
  "env \<Rightarrow> api_response \<Rightarrow> geo \<Rightarrow> AircraftInfo list \<times> geo" where
  "find_presidential_aircraft e api_response g =
     presidential_loop e (get_or (resp_ac api_response) []) [] {} g"

text \<open>
  The sort of \<open>display_rich\<close>: \<open>list.sort\<close> with a key is a stable sort by that key;
  strings compare by code point, tuples lexicographically.
\<close>

definition rich_key :: "AircraftInfo \<Rightarrow> nat \<times> string \<times> string" where
  "rich_key x = (if country x \<in> PRIORITY_COUNTRIES then 0 else 1, country x, description x)"


section \<open>The data source\<close>

text \<open>
  What the three statements inside the \<open>try\<close> of \<open>get_military_aircraft\<close> can do:
  \<open>session.get\<close> raises, \<open>raise_for_status\<close> raises \<open>HTTPError\<close>, \<open>response.json\<close>
  raises \<open>JSONDecodeError\<close> or returns the decoded object. Every exception carries its
  message. In the library \<open>requests\<close> the classes \<open>Timeout\<close>, \<open>ConnectionError\<close>,
  \<open>HTTPError\<close> and \<open>JSONDecodeError\<close> derive from \<open>RequestException\<close>. The pacing of
  \<open>_rate_limit\<close> delays the request and does not change what is returned; it is left out.
\<close>

datatype exn =
    Timeout string
  | ConnectionError string
  | HTTPError string
  | JSONDecodeError string
  | OSError string

fun is_RequestException :: "exn \<Rightarrow> bool" where
  "is_RequestException (Timeout m) = True"
| "is_RequestException (ConnectionError m) = True"
| "is_RequestException (HTTPError m) = True"
| "is_RequestException (JSONDecodeError m) = True"
| "is_RequestException (OSError m) = False"

fun str_of_exn :: "exn \<Rightarrow> string" where
  "str_of_exn (Timeout m) = m"
| "str_of_exn (ConnectionError m) = m"
| "str_of_exn (HTTPError m) = m"
| "str_of_exn (JSONDecodeError m) = m"
| "str_of_exn (OSError m) = m"

datatype http_outcome =
    GetRaises exn
  | StatusRaises string
  | JsonRaises string
  | JsonReturns api_response

fun request_json :: "http_outcome \<Rightarrow> exn + api_response" where
  "request_json (GetRaises x) = Inl x"
| "request_json (StatusRaises m) = Inl (HTTPError m)"
| "request_json (JsonRaises m) = Inl (JSONDecodeError m)"
| "request_json (JsonReturns response) = Inr response"

definition get_military_aircraft :: "http_outcome \<Rightarrow> exn + api_response" where
  "get_military_aircraft h =
     (case request_json h of
        Inr response \<Rightarrow> Inr response
      | Inl x \<Rightarrow>
          if is_RequestException x
          then Inr \<lparr>resp_ac = Some [], resp_msg = Some (str_of_exn x)\<rparr>
          else Inl x)"

section \<open>The second variant: the catalog\<close>

definition TOP_PRIORITY_CATEGORIES :: "string set" where
  "TOP_PRIORITY_CATEGORIES = {''Dictator Alert'', ''Governments''}"

definition HIGH_PRIORITY_CATEGORIES :: "string set" where
  "HIGH_PRIORITY_CATEGORIES = {''Oxcart'', ''Special Forces'', ''Gunship''}"

record AircraftRecord =
  rec_icao_hex :: string
  rec_registration :: string
  rec_operator :: string
  rec_aircraft_type :: string
  rec_icao_type :: string
  rec_cmpg :: string
  rec_tag1 :: string
  rec_tag2 :: string
  rec_tag3 :: string
  rec_category :: string
  rec_link :: string

text \<open>
  The catalog file: absent, present but failing in \<open>open\<close> or while it is read, or read as
  the rows of \<open>csv.DictReader\<close>, each a dictionary from column name to text.
\<close>

datatype csv_file =
    CsvMissing
  | CsvUnreadable exn
  | CsvRows "(string, string) dict list"

definition row_get :: "(string, string) dict \<Rightarrow> string \<Rightarrow> string" where
  "row_get row k = get_or (dict_get row k) []"

definition row_icao :: "(string, string) dict \<Rightarrow> string" where
  "row_icao row = strip (lower (row_get row ''$ICAO''))"

definition row_record :: "(string, string) dict \<Rightarrow> AircraftRecord" where
  "row_record row =
     \<lparr>rec_icao_hex = row_icao row,
      rec_registration = row_get row ''$Registration'',
      rec_operator = row_get row ''$Operator'',
      rec_aircraft_type = row_get row ''$Type'',
      rec_icao_type = row_get row ''$ICAO Type'',
      rec_cmpg = row_get row ''#CMPG'',
      rec_tag1 = row_get row ''$Tag 1'',
      rec_tag2 = row_get row ''$#Tag 2'',
      rec_tag3 = row_get row ''$#Tag 3'',
      rec_category = row_get row ''Category'',
      rec_link = row_get row ''$#Link''\<rparr>"

fun load_rows ::
  "(string, string) dict list \<Rightarrow> (string, AircraftRecord) dict \<Rightarrow> (string, AircraftRecord) dict" where
  "load_rows [] database = database"
| "load_rows (row # rows) database =
     (let icao = row_icao row
      in if icao \<noteq> [] \<and> length icao = 6
         then load_rows rows (dict_set database icao (row_record row))
         else load_rows rows database)"

fun load_aircraft_database :: "csv_file \<Rightarrow> exn + (string, AircraftRecord) dict" where
  "load_aircraft_database CsvMissing = Inr []"
| "load_aircraft_database (CsvUnreadable x) = Inl x"
| "load_aircraft_database (CsvRows rows) = Inr (load_rows rows [])"

definition country_names2 :: "(string, string) dict" where
  "country_names2 = dict_literal [
  (''US'', ''USA''), (''GB'', ''UK''), (''DE'', ''Germany''), (''FR'', ''France''),
  (''IT'', ''Italy''), (''ES'', ''Spain''), (''PL'', ''Poland''), (''CZ'', ''Czechia''),
  (''UA'', ''Ukraine''), (''RU'', ''Russia''), (''CN'', ''China''), (''KP'', ''N.Korea''),
  (''NL'', ''Netherlands''), (''BE'', ''Belgium''), (''AT'', ''Austria''), (''CH'', ''Switzerland''),
  (''SE'', ''Sweden''), (''NO'', ''Norway''), (''DK'', ''Denmark''), (''FI'', ''Finland''),
  (''EG'', ''Egypt''), (''SA'', ''Saudi''), (''AE'', ''UAE''), (''IL'', ''Israel''),
  (''TR'', ''Turkey''), (''JP'', ''Japan''), (''KR'', ''S.Korea''), (''AU'', ''Australia''),
  (''CA'', ''Canada''), (''MX'', ''Mexico''), (''BR'', ''Brazil''), (''ZA'', ''S.Africa''),
  (''ZW'', ''Zimbabwe''), (''BY'', ''Belarus''), (''SY'', ''Syria''), (''IR'', ''Iran''),
  (''KZ'', ''Kazakhstan''), (''UZ'', ''Uzbekistan''), (''TM'', ''Turkmenistan'')]"

definition get_location2 :: "env \<Rightarrow> rat option \<Rightarrow> rat option \<Rightarrow> geo \<Rightarrow> string \<times> geo" where
  "get_location2 = get_location_with country_names2"

record TrackedAircraft =
  ta_icao_hex :: string
  ta_callsign :: string
  ta_registration :: string
  ta_operator :: string
  ta_aircraft_type :: string
  ta_icao_type :: string
  ta_category :: string
  ta_cmpg :: string
  ta_tag1 :: string
  ta_tag2 :: string
  ta_tag3 :: string
  ta_link :: string
  ta_latitude :: "rat option"
  ta_longitude :: "rat option"
  ta_altitude :: "rat option"
  ta_ground_speed :: "rat option"
  ta_heading :: "rat option"
  ta_squawk :: string
  ta_on_ground :: bool
  ta_over_country :: string
  ta_is_priority :: bool
  ta_is_high_interest :: bool

definition parse_tracked_aircraft ::
  "env \<Rightarrow> ac_data \<Rightarrow> (string, AircraftRecord) dict \<Rightarrow> geo \<Rightarrow> TrackedAircraft option \<times> geo" where
  "parse_tracked_aircraft e ac db g =
     (let hx = lower (get_or (ac_hex ac) [])
      in case dict_get db hx of
           None \<Rightarrow> (None, g)
         | Some rc \<Rightarrow>
             (let la = ac_lat ac;
                  lo = ac_lon ac;
                  (oc, g') = (if truthy la \<and> truthy lo then get_location2 e la lo g else ([], g))
              in (Some \<lparr>ta_icao_hex = upper hx,
                        ta_callsign = str_or (strip (get_or (ac_flight ac) [])) ''N/A'',
                        ta_registration = rec_registration rc,
                        ta_operator =
                          (if rec_operator rc \<noteq> [] then take 35 (rec_operator rc) else ''Unknown''),
                        ta_aircraft_type =
                          (if rec_aircraft_type rc \<noteq> [] then take 25 (rec_aircraft_type rc) else []),
                        ta_icao_type = str_or (get_or (ac_t ac) []) (rec_icao_type rc),
                        ta_category = rec_category rc,
                        ta_cmpg = rec_cmpg rc,
                        ta_tag1 = rec_tag1 rc,
                        ta_tag2 = rec_tag2 rc,
                        ta_tag3 = rec_tag3 rc,
                        ta_link = rec_link rc,
                        ta_latitude = la,
                        ta_longitude = lo,
                        ta_altitude =
                          (case ac_alt_baro ac of
                             None \<Rightarrow> None | Some AltGround \<Rightarrow> Some 0 | Some (AltFeet a) \<Rightarrow> Some a),
                        ta_ground_speed = ac_gs ac,
                        ta_heading = ac_track ac,
                        ta_squawk = get_or (ac_squawk ac) [],
                        ta_on_ground = (ac_alt_baro ac = Some AltGround),
                        ta_over_country = oc,
                        ta_is_priority = (rec_category rc \<in> TOP_PRIORITY_CATEGORIES),
                        ta_is_high_interest = (rec_category rc \<in> HIGH_PRIORITY_CATEGORIES)\<rparr>,
                  g')))"

text \<open>The matching loop of \<open>main\<close>: the aircraft that \<open>parse_tracked_aircraft\<close> returns.\<close>

fun tracked_loop ::
  "env \<Rightarrow> ac_data list \<Rightarrow> (string, AircraftRecord) dict \<Rightarrow> TrackedAircraft list \<Rightarrow> geo
     \<Rightarrow> TrackedAircraft list \<times> geo" where
  "tracked_loop e [] database tracked g = (tracked, g)"
| "tracked_loop e (ac # rest) database tracked g =
     (case parse_tracked_aircraft e ac database g of
        (None, g') \<Rightarrow> tracked_loop e rest database tracked g'
      | (Some aircraft, g') \<Rightarrow> tracked_loop e rest database (tracked @ [aircraft]) g')"

text \<open>
  \<open>main\<close> of the second variant up to the list \<open>tracked\<close> that it hands to the display
  functions: it ends by an uncaught exception, returns after the message that the
  database could not be loaded, or reaches the display with a list.
\<close>

datatype run = Uncaught exn | NoDatabase | Tracked "TrackedAircraft list"

definition main2 :: "env \<Rightarrow> csv_file \<Rightarrow> http_outcome \<Rightarrow> geo \<Rightarrow> run" where
  "main2 e csv h g =
     (case load_aircraft_database csv of
        Inl x \<Rightarrow> Uncaught x
      | Inr database \<Rightarrow>
          if database = [] then NoDatabase
          else
            (case get_military_aircraft h of
               Inl x \<Rightarrow> Uncaught x
             | Inr response \<Rightarrow>
                 Tracked (fst (tracked_loop e (get_or (resp_ac response) []) database [] g))))"



section \<open>Notions used to state the properties\<close>

text \<open>The identifier under which the first variant deduplicates a track.\<close>

definition track_id :: "ac_data \<Rightarrow> string" where
  "track_id ac = lower (get_or (ac_hex ac) [])"

definition track_callsign :: "ac_data \<Rightarrow> string" where
  "track_callsign ac = upper (strip (get_or (ac_flight ac) []))"

text \<open>A track is tracked when its identifier is in the registry or its callsign matches.\<close>

definition is_tracked :: "ac_data \<Rightarrow> bool" where
  "is_tracked ac =
     (dict_contains PRESIDENTIAL_AIRCRAFT (track_id ac) \<or>
      matched (match_callsign VIP_CALLSIGN_PATTERNS (track_callsign ac)))"

text \<open>
  The entry that \<open>find_presidential_aircraft\<close> appends for a tracked track when
  \<open>parse_aircraft\<close> runs on it with the geolocation state \<open>g\<close>.
\<close>

definition emitted_info :: "env \<Rightarrow> ac_data \<Rightarrow> geo \<Rightarrow> AircraftInfo" where
  "emitted_info e ac g =
     (if dict_contains PRESIDENTIAL_AIRCRAFT (track_id ac)
      then fst (parse_aircraft e ac PRESIDENTIAL_AIRCRAFT g)
      else (fst (parse_aircraft e ac PRESIDENTIAL_AIRCRAFT g))
             \<lparr>country := the (match_callsign VIP_CALLSIGN_PATTERNS (track_callsign ac)),
              description := ''VIP Flight ('' @ track_callsign ac @ '')''\<rparr>)"

text \<open>
  The matcher as the specification words it: the country of the first rule, in the order
  in which the rule table is written, whose prefix the normalized callsign starts with.
\<close>

definition first_listed_rule :: "(string \<times> string) list \<Rightarrow> string \<Rightarrow> string option" where
  "first_listed_rule rules cs =
     map_option snd (find (\<lambda>rule. prefix (fst rule) (upper (strip cs))) rules)"

text \<open>The shape that the specification asks of a catalog identifier.\<close>

definition is_hex6 :: "string \<Rightarrow> bool" where
  "is_hex6 s = (length s = 6 \<and> list_all (\<lambda>c. c \<in> set ''0123456789abcdef'') s)"

section \<open>Sample inputs\<close>

definition no_geocoder :: env where
  "no_geocoder = \<lparr>RG_AVAILABLE = False, rg_search = (\<lambda>la lo. RgRaises)\<rparr>"

definition empty_geo :: geo where
  "empty_geo = \<lparr>location_cache = [], rg_calls = []\<rparr>"

text \<open>A track that reports its identifier and its callsign only, and one with a position.\<close>

definition track :: "string \<Rightarrow> string \<Rightarrow> ac_data" where
  "track h f =
     \<lparr>ac_hex = Some h, ac_flight = Some f, ac_r = None, ac_t = None, ac_lat = None,
      ac_lon = None, ac_alt_baro = None, ac_gs = None, ac_track = None, ac_baro_rate = None,
      ac_squawk = None, ac_seen = None\<rparr>"

definition track_at :: "string \<Rightarrow> string \<Rightarrow> rat \<Rightarrow> rat \<Rightarrow> ac_data" where
  "track_at h f la lo = (track h f)\<lparr>ac_lat := Some la, ac_lon := Some lo\<rparr>"

definition snapshot :: "ac_data list \<Rightarrow> api_response" where
  "snapshot acs = \<lparr>resp_ac = Some acs, resp_msg = None\<rparr>"

text \<open>
  Geocoders: one that answers every position with the same place, and one that raises
  on one position and answers the others.
\<close>

definition geocoder_of :: "string \<Rightarrow> string \<Rightarrow> env" where
  "geocoder_of name cc =
     \<lparr>RG_AVAILABLE = True, rg_search = (\<lambda>la lo. RgReturns [[(''name'', name), (''cc'', cc)]])\<rparr>"






text \<open>Classified entries with a given identifier, country (or category) and description.\<close>

definition sample_info :: "string \<Rightarrow> string \<Rightarrow> string \<Rightarrow> AircraftInfo" where
  "sample_info h c d =
     \<lparr>hex_code = h, callsign = ''N/A'', registration = ''N/A'', aircraft_type = ''N/A'',
      country = c, description = d, latitude = None, longitude = None, altitude = None,
      ground_speed = None, heading = None, vertical_rate = None, squawk = ''N/A'',
      on_ground = False, last_seen = 0, over_country = []\<rparr>"

definition sample_tracked :: "string \<Rightarrow> string \<Rightarrow> string \<Rightarrow> TrackedAircraft" where
  "sample_tracked h c p =
     \<lparr>ta_icao_hex = h, ta_callsign = ''N/A'', ta_registration = [], ta_operator = p,
      ta_aircraft_type = [], ta_icao_type = [], ta_category = c, ta_cmpg = [], ta_tag1 = [],
      ta_tag2 = [], ta_tag3 = [], ta_link = [], ta_latitude = None, ta_longitude = None,
      ta_altitude = None, ta_ground_speed = None, ta_heading = None, ta_squawk = [],
      ta_on_ground = False, ta_over_country = [], ta_is_priority = False,
      ta_is_high_interest = False\<rparr>"

text \<open>A catalog of one row.\<close>

definition sample_rows :: "(string, string) dict list" where
  "sample_rows =
     [[(''$ICAO'', ''AE001F''), (''$Registration'', ''82-8000''), (''$Operator'', ''USAF''),
       (''Category'', ''Governments'')]]"

section \<open>Case mapping\<close>

lemma lower_char_upper_lower: "lower_char (upper_char (lower_char c)) = lower_char c"
  by (auto simp: lower_char_def upper_char_def)

lemma lower_upper_lower: "lower (upper (lower s)) = lower s"
  by (simp add: lower_def upper_def lower_char_upper_lower)

section \<open>The classification loop, step by step\<close>

lemma step_seen:
  "track_id ac \<in> seen \<Longrightarrow>
   presidential_loop e (ac # rest) pres seen g = presidential_loop e rest pres seen g"
  by (simp add: track_id_def)

lemma step_emit:
  "track_id ac \<notin> seen \<Longrightarrow> is_tracked ac \<Longrightarrow>
   presidential_loop e (ac # rest) pres seen g =
     presidential_loop e rest (pres @ [emitted_info e ac g]) (insert (track_id ac) seen)
       (snd (parse_aircraft e ac PRESIDENTIAL_AIRCRAFT g))"
  by (auto simp: track_id_def is_tracked_def emitted_info_def track_callsign_def Let_def
      split: prod.splits)

lemma step_drop:
  "track_id ac \<notin> seen \<Longrightarrow> \<not> is_tracked ac \<Longrightarrow>
   presidential_loop e (ac # rest) pres seen g = presidential_loop e rest pres seen g"
  by (auto simp: track_id_def is_tracked_def track_callsign_def Let_def)

lemma loop_acc:
  "presidential_loop e acs pres seen g =
     (pres @ fst (presidential_loop e acs [] seen g), snd (presidential_loop e acs [] seen g))"
proof (induction acs arbitrary: pres seen g)
  case Nil
  show ?case by simp
next
  case (Cons ac rest)
  consider (seen) "track_id ac \<in> seen"
    | (emit) "track_id ac \<notin> seen" "is_tracked ac"
    | (drop) "track_id ac \<notin> seen" "\<not> is_tracked ac"
    by blast
  then show ?case
  proof cases
    case seen
    show ?thesis using Cons.IH [of pres seen g] by (simp only: step_seen [OF seen])
  next
    case emit
    let ?x = "emitted_info e ac g"
    let ?s = "insert (track_id ac) seen"
    let ?g = "snd (parse_aircraft e ac PRESIDENTIAL_AIRCRAFT g)"
    have a: "presidential_loop e rest (pres @ [?x]) ?s ?g =
        ((pres @ [?x]) @ fst (presidential_loop e rest [] ?s ?g),
         snd (presidential_loop e rest [] ?s ?g))"
      by (rule Cons.IH)
    have b: "presidential_loop e rest ([] @ [?x]) ?s ?g =
        ([?x] @ fst (presidential_loop e rest [] ?s ?g),
         snd (presidential_loop e rest [] ?s ?g))"
      using Cons.IH [of "[?x]" ?s ?g] by simp
    show ?thesis
      by (simp only: step_emit [OF emit] a b fst_conv snd_conv append_assoc)
  next
    case drop
    show ?thesis using Cons.IH [of pres seen g] by (simp only: step_drop [OF drop])
  qed
qed


lemma news_Nil: "fst (presidential_loop e [] [] seen g) = []"
  by simp

declare presidential_loop.simps(2) [simp del]

lemma news_seen:
  "track_id ac \<in> seen \<Longrightarrow>
   fst (presidential_loop e (ac # rest) [] seen g) = fst (presidential_loop e rest [] seen g)"
  by (simp add: step_seen)

lemma news_drop:
  "track_id ac \<notin> seen \<Longrightarrow> \<not> is_tracked ac \<Longrightarrow>
   fst (presidential_loop e (ac # rest) [] seen g) = fst (presidential_loop e rest [] seen g)"
  by (simp add: step_drop)

lemma news_emit:
  "track_id ac \<notin> seen \<Longrightarrow> is_tracked ac \<Longrightarrow>
   fst (presidential_loop e (ac # rest) [] seen g) =
     emitted_info e ac g #
     fst (presidential_loop e rest [] (insert (track_id ac) seen)
            (snd (parse_aircraft e ac PRESIDENTIAL_AIRCRAFT g)))"
proof -
  assume a: "track_id ac \<notin> seen" "is_tracked ac"
  show ?thesis
    by (subst step_emit [OF a], subst loop_acc) simp
qed

lemma hex_code_parse:
  "hex_code (fst (parse_aircraft e ac ka g)) = upper (track_id ac)"
  by (simp add: parse_aircraft_def track_id_def Let_def split: prod.splits)

lemma hex_code_emitted: "hex_code (emitted_info e ac g) = upper (track_id ac)"
  by (simp add: emitted_info_def hex_code_parse)

lemma lower_hex_code_emitted: "lower (hex_code (emitted_info e ac g)) = track_id ac"
  by (simp add: hex_code_emitted track_id_def lower_upper_lower)

lemma cases3:
  "(track_id ac \<in> seen \<Longrightarrow> P) \<Longrightarrow> (track_id ac \<notin> seen \<Longrightarrow> is_tracked ac \<Longrightarrow> P) \<Longrightarrow>
   (track_id ac \<notin> seen \<Longrightarrow> \<not> is_tracked ac \<Longrightarrow> P) \<Longrightarrow> P"
  by blast

lemma news_avoid_seen:
  "info \<in> set (fst (presidential_loop e acs [] seen g)) \<Longrightarrow> lower (hex_code info) \<notin> seen"
proof (induction acs arbitrary: seen g)
  case Nil
  then show ?case by simp
next
  case (Cons ac rest)
  show ?case
  proof (rule cases3 [of ac seen])
    assume s: "track_id ac \<in> seen"
    show ?thesis using Cons.prems Cons.IH [of seen g] by (simp add: news_seen [OF s])
  next
    assume a: "track_id ac \<notin> seen" "is_tracked ac"
    show ?thesis using Cons.prems Cons.IH [of "insert (track_id ac) seen"] a(1)
      by (auto simp: news_emit [OF a] lower_hex_code_emitted)
  next
    assume a: "track_id ac \<notin> seen" "\<not> is_tracked ac"
    show ?thesis using Cons.prems Cons.IH [of seen g] by (simp add: news_drop [OF a])
  qed
qed

lemma news_distinct:
  "distinct (map (\<lambda>info. lower (hex_code info)) (fst (presidential_loop e acs [] seen g)))"
proof (induction acs arbitrary: seen g)
  case Nil
  show ?case by simp
next
  case (Cons ac rest)
  show ?case
  proof (rule cases3 [of ac seen])
    assume s: "track_id ac \<in> seen"
    show ?thesis using Cons.IH [of seen g] by (simp add: news_seen [OF s])
  next
    assume a: "track_id ac \<notin> seen" "is_tracked ac"
    have "\<forall>info \<in> set (fst (presidential_loop e rest [] (insert (track_id ac) seen)
            (snd (parse_aircraft e ac PRESIDENTIAL_AIRCRAFT g)))). lower (hex_code info) \<noteq> track_id ac"
      using news_avoid_seen by blast
    then show ?thesis using Cons.IH [of "insert (track_id ac) seen"]
      by (auto simp: news_emit [OF a] lower_hex_code_emitted)
  next
    assume a: "track_id ac \<notin> seen" "\<not> is_tracked ac"
    show ?thesis using Cons.IH [of seen g] by (simp add: news_drop [OF a])
  qed
qed

lemma news_first_tracked:
  "find (\<lambda>ac. track_id ac = h \<and> is_tracked ac) acs = Some ac \<Longrightarrow> h \<notin> seen \<Longrightarrow>
   \<exists>g0. emitted_info e ac g0 \<in> set (fst (presidential_loop e acs [] seen g))"
proof (induction acs arbitrary: seen g)
  case Nil
  then show ?case by simp
next
  case (Cons a rest)
  show ?case
  proof (rule cases3 [of a seen])
    assume s: "track_id a \<in> seen"
    then have "track_id a \<noteq> h" using Cons.prems(2) by blast
    then have "find (\<lambda>ac. track_id ac = h \<and> is_tracked ac) rest = Some ac"
      using Cons.prems(1) by simp
    then show ?thesis using Cons.IH [of seen g] Cons.prems(2) by (simp add: news_seen [OF s])
  next
    assume a: "track_id a \<notin> seen" "is_tracked a"
    show ?thesis
    proof (cases "track_id a = h")
      case True
      then have "ac = a" using Cons.prems(1) a(2) by simp
      then show ?thesis by (auto simp: news_emit [OF a])
    next
      case False
      then have f: "find (\<lambda>ac. track_id ac = h \<and> is_tracked ac) rest = Some ac"
        using Cons.prems(1) by simp
      have "h \<notin> insert (track_id a) seen" using False Cons.prems(2) by blast
      from Cons.IH [OF f this] show ?thesis by (auto simp: news_emit [OF a])
    qed
  next
    assume a: "track_id a \<notin> seen" "\<not> is_tracked a"
    then have "find (\<lambda>ac. track_id ac = h \<and> is_tracked ac) rest = Some ac"
      using Cons.prems(1) by auto
    then show ?thesis using Cons.IH [of seen g] Cons.prems(2) by (simp add: news_drop [OF a])
  qed
qed

lemma news_none_tracked:
  "find (\<lambda>ac. track_id ac = h \<and> is_tracked ac) acs = None \<Longrightarrow>
   info \<in> set (fst (presidential_loop e acs [] seen g)) \<Longrightarrow> lower (hex_code info) \<noteq> h"
proof (induction acs arbitrary: seen g)
  case Nil
  then show ?case by simp
next
  case (Cons a rest)
  have f: "find (\<lambda>ac. track_id ac = h \<and> is_tracked ac) rest = None"
    using Cons.prems(1) by (auto split: if_splits)
  show ?case
  proof (rule cases3 [of a seen])
    assume s: "track_id a \<in> seen"
    show ?thesis using Cons.prems(2) Cons.IH [OF f, of seen g] by (simp add: news_seen [OF s])
  next
    assume a: "track_id a \<notin> seen" "is_tracked a"
    then have "track_id a \<noteq> h" using Cons.prems(1) by (auto split: if_splits)
    then show ?thesis using Cons.prems(2) Cons.IH [OF f, of "insert (track_id a) seen"]
      by (auto simp: news_emit [OF a] lower_hex_code_emitted)
  next
    assume a: "track_id a \<notin> seen" "\<not> is_tracked a"
    show ?thesis using Cons.prems(2) Cons.IH [OF f, of seen g] by (simp add: news_drop [OF a])
  qed
qed

section \<open>Dictionary displays\<close>

lemma map_of_dict_set: "map_of (dict_set d k v) = (map_of d)(k \<mapsto> v)"
  by (induction d k v rule: dict_set.induct) auto

lemma dict_get_foldl:
  "map_of (foldl (\<lambda>d (k, v). dict_set d k v) d kvs) k =
     foldl (\<lambda>r kv. if fst kv = k then Some (snd kv) else r) (map_of d k) kvs"
  by (induction kvs arbitrary: d) (auto simp: map_of_dict_set)

lemma dict_get_literal:
  "dict_get (dict_literal kvs) k =
     foldl (\<lambda>r kv. if fst kv = k then Some (snd kv) else r) None kvs"
  by (simp add: dict_get_def dict_literal_def dict_get_foldl)

lemma find_append:
  "find P (xs @ ys) = (case find P xs of None \<Rightarrow> find P ys | Some x \<Rightarrow> Some x)"
  by (induction xs) auto

lemma find_keys_dict_set:
  "find P (map fst (dict_set d k v)) = find P (map fst d @ [k])"
  by (induction d k v rule: dict_set.induct) (auto simp: find_append split: option.splits)

lemma find_keys_foldl:
  "find P (map fst (foldl (\<lambda>d (k, v). dict_set d k v) d kvs)) = find P (map fst d @ map fst kvs)"
proof (induction kvs arbitrary: d)
  case Nil
  show ?case by simp
next
  case (Cons kv kvs)
  obtain k v where kv: "kv = (k, v)" by (cases kv)
  have "find P (map fst (foldl (\<lambda>d (k, v). dict_set d k v) d (kv # kvs))) =
        find P (map fst (dict_set d k v) @ map fst kvs)"
    using Cons.IH [of "dict_set d k v"] by (simp add: kv)
  also have "\<dots> = find P ((map fst d @ [k]) @ map fst kvs)"
    by (simp only: find_append [of P "map fst (dict_set d k v)"] find_keys_dict_set
        find_append [of P "map fst d @ [k]", symmetric])
  finally show ?case by (simp add: kv)
qed

lemma keys_dict_set: "fst ` set (dict_set d k v) = insert k (fst ` set d)"
  by (induction d k v rule: dict_set.induct) auto

lemma distinct_dict_set: "distinct (map fst d) \<Longrightarrow> distinct (map fst (dict_set d k v))"
  by (induction d k v rule: dict_set.induct) (auto simp: keys_dict_set)

lemma find_Some_in: "find P xs = Some x \<Longrightarrow> x \<in> set xs \<and> P x"
  by (induction xs) (auto split: if_splits)

lemma distinct_foldl_dict_set:
  "distinct (map fst d) \<Longrightarrow> distinct (map fst (foldl (\<lambda>d (k, v). dict_set d k v) d kvs))"
  by (induction kvs arbitrary: d) (auto simp: distinct_dict_set)

lemma distinct_dict_literal: "distinct (map fst (dict_literal kvs))"
  by (simp add: dict_literal_def distinct_foldl_dict_set)

lemma match_callsign_find:
  "distinct (map fst d) \<Longrightarrow>
   match_callsign d cs =
     (case find (\<lambda>p. prefix p cs) (map fst d) of None \<Rightarrow> None | Some p \<Rightarrow> map_of d p)"
  by (induction d cs rule: match_callsign.induct) (auto split: option.splits dest: find_Some_in)

lemma match_callsign_literal:
  "match_callsign (dict_literal kvs) cs =
     (case find (\<lambda>p. prefix p cs) (map fst kvs) of
        None \<Rightarrow> None
      | Some p \<Rightarrow> foldl (\<lambda>r kv. if fst kv = p then Some (snd kv) else r) None kvs)"
proof -
  have "find (\<lambda>p. prefix p cs) (map fst (dict_literal kvs)) =
        find (\<lambda>p. prefix p cs) (map fst kvs)"
    using find_keys_foldl [of "\<lambda>p. prefix p cs" "[]" kvs] by (simp add: dict_literal_def)
  then show ?thesis
    using match_callsign_find [OF distinct_dict_literal, of kvs cs] dict_get_literal [of kvs]
    by (simp add: dict_get_def split: option.splits)
qed

section \<open>Exact-match precedence and deduplication\<close>

lemma find_presidential_news:
  "fst (find_presidential_aircraft e api_response g) =
     fst (presidential_loop e (get_or (resp_ac api_response) []) [] {} g)"
  by (simp add: find_presidential_aircraft_def)

lemma news_are_emitted:
  "info \<in> set (fst (presidential_loop e acs [] seen g)) \<Longrightarrow>
   \<exists>a \<in> set acs. \<exists>g0. is_tracked a \<and> info = emitted_info e a g0"
proof (induction acs arbitrary: seen g)
  case Nil
  then show ?case by simp
next
  case (Cons ac rest)
  show ?case
  proof (rule cases3 [of ac seen])
    assume s: "track_id ac \<in> seen"
    show ?thesis using Cons.prems Cons.IH [of seen g] by (auto simp: news_seen [OF s])
  next
    assume a: "track_id ac \<notin> seen" "is_tracked ac"
    show ?thesis using Cons.prems Cons.IH [of "insert (track_id ac) seen"] a(2)
      by (auto simp: news_emit [OF a])
  next
    assume a: "track_id ac \<notin> seen" "\<not> is_tracked ac"
    show ?thesis using Cons.prems Cons.IH [of seen g] by (auto simp: news_drop [OF a])
  qed
qed

lemma emitted_registry:
  "dict_get PRESIDENTIAL_AIRCRAFT (track_id a) = Some k \<Longrightarrow>
   country (emitted_info e a g0) = known_country k \<and>
   description (emitted_info e a g0) = known_description k"
  by (simp add: emitted_info_def dict_contains_def parse_aircraft_def track_id_def Let_def
      split: prod.splits)

lemma track_id_lowered: "lower (upper (track_id a)) = track_id a"
  by (simp add: track_id_def lower_upper_lower)

text \<open>
  Claim C1. A track of the snapshot whose lowercased identifier is a key of the registry
  has an entry in the result, and every entry of the result with that identifier carries
  the country and the description of the registry record, whatever the callsign of the
  track is.
\<close>

theorem registry_precedence:
  assumes "ac \<in> set (get_or (resp_ac api_response) [])"
    and "dict_get PRESIDENTIAL_AIRCRAFT (track_id ac) = Some k"
  shows "(\<exists>info \<in> set (fst (find_presidential_aircraft e api_response g)).
            hex_code info = upper (track_id ac)) \<and>
         (\<forall>info \<in> set (fst (find_presidential_aircraft e api_response g)).
            hex_code info = upper (track_id ac) \<longrightarrow>
            country info = known_country k \<and> description info = known_description k)"
proof
  let ?acs = "get_or (resp_ac api_response) []"
  let ?out = "fst (presidential_loop e ?acs [] {} g)"
  let ?P = "\<lambda>a. track_id a = track_id ac \<and> is_tracked a"
  have t: "is_tracked ac" using assms(2) by (simp add: is_tracked_def dict_contains_def)
  then have "find ?P ?acs \<noteq> None" using assms(1) by (auto simp: find_None_iff)
  then obtain a where a: "find ?P ?acs = Some a" by blast
  then have ia: "track_id a = track_id ac" by (auto dest: find_Some_in)
  from news_first_tracked [OF a, of "{}" e g] obtain g0 where
    "emitted_info e a g0 \<in> set ?out" by auto
  then show "\<exists>info \<in> set (fst (find_presidential_aircraft e api_response g)).
            hex_code info = upper (track_id ac)"
    using ia by (auto simp: find_presidential_news hex_code_emitted intro!: bexI)
next
  show "\<forall>info \<in> set (fst (find_presidential_aircraft e api_response g)).
            hex_code info = upper (track_id ac) \<longrightarrow>
            country info = known_country k \<and> description info = known_description k"
  proof (intro ballI impI)
    fix info
    assume i: "info \<in> set (fst (find_presidential_aircraft e api_response g))"
      and h: "hex_code info = upper (track_id ac)"
    from i have "info \<in> set (fst (presidential_loop e (get_or (resp_ac api_response) []) [] {} g))"
      by (simp add: find_presidential_news)
    from news_are_emitted [OF this] obtain a g0 where a: "info = emitted_info e a g0"
      by blast
    have "track_id a = track_id ac"
      using h lower_hex_code_emitted [of e a g0] track_id_lowered [of ac] by (simp add: a)
    then show "country info = known_country k \<and> description info = known_description k"
      using emitted_registry [of a k e g0] assms(2) by (simp add: a)
  qed
qed

text \<open>
  Claim C2, as amended. No two entries of the result share an identifier. For every
  identifier, the result holds an entry built from the first track of the snapshot that
  has this identifier and is tracked (registry hit or callsign match), and no entry with
  this identifier when no such track exists; for an identifier of the registry this
  track is the first occurrence of the identifier.
\<close>

theorem deduplication_first_tracked:
  "distinct (map hex_code (fst (find_presidential_aircraft e api_response g))) \<and>
   (\<forall>h. case find (\<lambda>ac. track_id ac = h \<and> is_tracked ac) (get_or (resp_ac api_response) []) of
          None \<Rightarrow>
            \<not> (\<exists>info \<in> set (fst (find_presidential_aircraft e api_response g)).
                  lower (hex_code info) = h)
        | Some ac \<Rightarrow>
            (\<exists>g0. emitted_info e ac g0 \<in> set (fst (find_presidential_aircraft e api_response g))) \<and>
            (dict_contains PRESIDENTIAL_AIRCRAFT h \<longrightarrow>
               find (\<lambda>ac. track_id ac = h) (get_or (resp_ac api_response) []) = Some ac))"
proof
  have "distinct (map lower (map hex_code (fst (find_presidential_aircraft e api_response g))))"
    using news_distinct [of e _ "{}" g] by (simp add: find_presidential_news comp_def)
  then show "distinct (map hex_code (fst (find_presidential_aircraft e api_response g)))"
    by (auto simp: distinct_map inj_on_def)
next
  let ?acs = "get_or (resp_ac api_response) []"
  show "\<forall>h. case find (\<lambda>ac. track_id ac = h \<and> is_tracked ac) ?acs of
          None \<Rightarrow>
            \<not> (\<exists>info \<in> set (fst (find_presidential_aircraft e api_response g)).
                  lower (hex_code info) = h)
        | Some ac \<Rightarrow>
            (\<exists>g0. emitted_info e ac g0 \<in> set (fst (find_presidential_aircraft e api_response g))) \<and>
            (dict_contains PRESIDENTIAL_AIRCRAFT h \<longrightarrow> find (\<lambda>ac. track_id ac = h) ?acs = Some ac)"
  proof
    fix h
    show "case find (\<lambda>ac. track_id ac = h \<and> is_tracked ac) ?acs of
          None \<Rightarrow>
            \<not> (\<exists>info \<in> set (fst (find_presidential_aircraft e api_response g)).
                  lower (hex_code info) = h)
        | Some ac \<Rightarrow>
            (\<exists>g0. emitted_info e ac g0 \<in> set (fst (find_presidential_aircraft e api_response g))) \<and>
            (dict_contains PRESIDENTIAL_AIRCRAFT h \<longrightarrow> find (\<lambda>ac. track_id ac = h) ?acs = Some ac)"
    proof (cases "find (\<lambda>ac. track_id ac = h \<and> is_tracked ac) ?acs")
      case None
      then show ?thesis
        using news_none_tracked [of h ?acs _ e "{}" g] by (auto simp: find_presidential_news)
    next
      case (Some ac)
      have r: "dict_contains PRESIDENTIAL_AIRCRAFT h \<Longrightarrow>
          (\<lambda>ac. track_id ac = h \<and> is_tracked ac) = (\<lambda>ac. track_id ac = h)"
        by (auto simp: is_tracked_def fun_eq_iff)
      show ?thesis
        using Some news_first_tracked [OF Some, of "{}" e g] r
        by (auto simp: find_presidential_news)
    qed
  qed
qed

section \<open>Evaluation on sample inputs\<close>

lemma track_id_track: "track_id (track h f) = lower h"
  by (simp add: track_id_def track_def get_or_def)

lemma track_callsign_track: "track_callsign (track h f) = upper (strip f)"
  by (simp add: track_callsign_def track_def get_or_def)

lemma callsign_emitted_track:
  "callsign (emitted_info e (track h f) g) = str_or (strip f) ''N/A''"
  by (simp add: emitted_info_def parse_aircraft_def track_def get_or_def Let_def truthy_def)

lemma country_emitted_pattern:
  "\<not> dict_contains PRESIDENTIAL_AIRCRAFT (track_id ac) \<Longrightarrow>
   country (emitted_info e ac g) = the (match_callsign VIP_CALLSIGN_PATTERNS (track_callsign ac))"
  by (simp add: emitted_info_def)

lemma snapshot_one:
  "is_tracked ac \<Longrightarrow> fst (find_presidential_aircraft e (snapshot [ac]) g) = [emitted_info e ac g]"
  by (simp add: find_presidential_news snapshot_def get_or_def news_emit)

lemma snapshot_two_second:
  "\<not> is_tracked a \<Longrightarrow> is_tracked b \<Longrightarrow>
   fst (find_presidential_aircraft e (snapshot [a, b]) g) = [emitted_info e b g]"
  by (simp add: find_presidential_news snapshot_def get_or_def news_emit news_drop)

lemma lower_AE001F: "lower ''AE001F'' = ''ae001f''"
  by code_simp

lemma lower_000001: "lower ''000001'' = ''000001''"
  by code_simp

lemma normalize_FAF123: "upper (strip ''FAF123  '') = ''FAF123''"
  by code_simp

lemma normalize_XYZ1: "upper (strip ''XYZ1'') = ''XYZ1''"
  by code_simp

lemma normalize_AF1: "upper (strip ''AF1'') = ''AF1''"
  by code_simp

lemma strip_AF1: "strip ''AF1'' = ''AF1''"
  by code_simp

lemma registry_ae001f:
  "dict_get PRESIDENTIAL_AIRCRAFT ''ae001f'' =
     Some (K ''USA'' ''Air Force One (VC-25A)'' ''82-8000'' ''VC25'')"
  by (simp add: PRESIDENTIAL_AIRCRAFT_def PRESIDENTIAL_AIRCRAFT_entries_def dict_get_literal)

lemma registry_000001: "dict_get PRESIDENTIAL_AIRCRAFT ''000001'' = None"
  by (simp add: PRESIDENTIAL_AIRCRAFT_def PRESIDENTIAL_AIRCRAFT_entries_def dict_get_literal)

lemma patterns_FAF123: "match_callsign VIP_CALLSIGN_PATTERNS ''FAF123'' = Some ''Finland''"
  by (simp add: VIP_CALLSIGN_PATTERNS_def VIP_CALLSIGN_PATTERNS_entries_def match_callsign_literal)

lemma patterns_XYZ1: "match_callsign VIP_CALLSIGN_PATTERNS ''XYZ1'' = None"
  by (simp add: VIP_CALLSIGN_PATTERNS_def VIP_CALLSIGN_PATTERNS_entries_def match_callsign_literal)

lemma patterns_AF1: "match_callsign VIP_CALLSIGN_PATTERNS ''AF1'' = Some ''USA''"
  by (simp add: VIP_CALLSIGN_PATTERNS_def VIP_CALLSIGN_PATTERNS_entries_def match_callsign_literal)

lemma tracked_AE001F: "is_tracked (track ''AE001F'' f)"
  by (simp add: is_tracked_def dict_contains_def track_id_track lower_AE001F registry_ae001f)

lemma untracked_XYZ1: "\<not> is_tracked (track ''000001'' ''XYZ1'')"
  by (simp add: is_tracked_def dict_contains_def track_id_track track_callsign_track
      lower_000001 registry_000001 normalize_XYZ1 patterns_XYZ1 matched_def)

lemma tracked_AF1: "is_tracked (track ''000001'' ''AF1'')"
  by (simp add: is_tracked_def track_callsign_track normalize_AF1 patterns_AF1 matched_def)

lemma tracked_FAF123: "is_tracked (track ''000001'' ''FAF123  '')"
  by (simp add: is_tracked_def track_callsign_track normalize_FAF123 patterns_FAF123 matched_def)

text \<open>
  An instance of C1: the Air Force One identifier with a callsign that the pattern table
  alone resolves to Finland.
\<close>

theorem registry_precedence_witness:
  "track ''AE001F'' ''FAF123  ''
     \<in> set (get_or (resp_ac (snapshot [track ''AE001F'' ''FAF123  ''])) []) \<and>
   dict_get PRESIDENTIAL_AIRCRAFT (track_id (track ''AE001F'' ''FAF123  '')) =
     Some (K ''USA'' ''Air Force One (VC-25A)'' ''82-8000'' ''VC25'') \<and>
   match_callsign VIP_CALLSIGN_PATTERNS (track_callsign (track ''AE001F'' ''FAF123  '')) =
     Some ''Finland'' \<and>
   map country (fst (find_presidential_aircraft no_geocoder
     (snapshot [track ''AE001F'' ''FAF123  '']) empty_geo)) = [''USA''] \<and>
   map description (fst (find_presidential_aircraft no_geocoder
     (snapshot [track ''AE001F'' ''FAF123  '']) empty_geo)) = [''Air Force One (VC-25A)'']"
proof -
  let ?t = "track ''AE001F'' ''FAF123  ''"
  let ?k = "K ''USA'' ''Air Force One (VC-25A)'' ''82-8000'' ''VC25''"
  have m: "?t \<in> set (get_or (resp_ac (snapshot [?t])) [])"
    by (simp add: snapshot_def get_or_def)
  have r: "dict_get PRESIDENTIAL_AIRCRAFT (track_id ?t) = Some ?k"
    by (simp add: track_id_track lower_AE001F registry_ae001f)
  have p: "match_callsign VIP_CALLSIGN_PATTERNS (track_callsign ?t) = Some ''Finland''"
    by (simp add: track_callsign_track normalize_FAF123 patterns_FAF123)
  have out: "fst (find_presidential_aircraft no_geocoder (snapshot [?t]) empty_geo) =
      [emitted_info no_geocoder ?t empty_geo]"
    by (rule snapshot_one [OF tracked_AE001F])
  have "country (emitted_info no_geocoder ?t empty_geo) = known_country ?k \<and>
        description (emitted_info no_geocoder ?t empty_geo) = known_description ?k"
    using registry_precedence [OF m r, of no_geocoder empty_geo]
    by (simp add: out hex_code_emitted)
  then show ?thesis using m r p by (simp add: out K_def)
qed

text \<open>
  Claim C2 as stated fails: of two tracks with one identifier, the first with a callsign
  that matches no pattern, the only entry of the result is built from the second.
\<close>

theorem deduplication_counterexample:
  "track_id (track ''000001'' ''XYZ1'') = track_id (track ''000001'' ''AF1'') \<and>
   map callsign (fst (find_presidential_aircraft no_geocoder
     (snapshot [track ''000001'' ''XYZ1'', track ''000001'' ''AF1'']) empty_geo)) = [''AF1'']"
  by (simp add: track_id_track snapshot_two_second [OF untracked_XYZ1 tracked_AF1]
      callsign_emitted_track strip_AF1 str_or_def)

text \<open>An instance of the amended C2 on the same snapshot.\<close>

theorem deduplication_first_tracked_witness:
  "distinct (map hex_code (fst (find_presidential_aircraft no_geocoder
     (snapshot [track ''000001'' ''XYZ1'', track ''000001'' ''AF1'']) empty_geo))) \<and>
   find (\<lambda>ac. track_id ac = ''000001'' \<and> is_tracked ac)
     [track ''000001'' ''XYZ1'', track ''000001'' ''AF1''] = Some (track ''000001'' ''AF1'') \<and>
   (\<exists>g0. emitted_info no_geocoder (track ''000001'' ''AF1'') g0
      \<in> set (fst (find_presidential_aircraft no_geocoder
           (snapshot [track ''000001'' ''XYZ1'', track ''000001'' ''AF1'']) empty_geo)))"
proof -
  let ?a = "track ''000001'' ''XYZ1''"
  let ?b = "track ''000001'' ''AF1''"
  have f: "find (\<lambda>ac. track_id ac = ''000001'' \<and> is_tracked ac) [?a, ?b] = Some ?b"
    by (simp add: untracked_XYZ1 tracked_AF1 track_id_track lower_000001)
  have g: "get_or (resp_ac (snapshot [?a, ?b])) [] = [?a, ?b]"
    by (simp add: snapshot_def get_or_def)
  from deduplication_first_tracked [of no_geocoder "snapshot [?a, ?b]" empty_geo]
  have d: "distinct (map hex_code (fst (find_presidential_aircraft no_geocoder
     (snapshot [?a, ?b]) empty_geo)))"
    and c: "case find (\<lambda>ac. track_id ac = ''000001'' \<and> is_tracked ac) [?a, ?b] of
          None \<Rightarrow>
            \<not> (\<exists>info \<in> set (fst (find_presidential_aircraft no_geocoder (snapshot [?a, ?b]) empty_geo)).
                  lower (hex_code info) = ''000001'')
        | Some ac \<Rightarrow>
            (\<exists>g0. emitted_info no_geocoder ac g0
               \<in> set (fst (find_presidential_aircraft no_geocoder (snapshot [?a, ?b]) empty_geo))) \<and>
            (dict_contains PRESIDENTIAL_AIRCRAFT ''000001'' \<longrightarrow>
               find (\<lambda>ac. track_id ac = ''000001'') [?a, ?b] = Some ac)"
    unfolding g by blast+
  from c have "\<exists>g0. emitted_info no_geocoder ?b g0
      \<in> set (fst (find_presidential_aircraft no_geocoder (snapshot [?a, ?b]) empty_geo))"
    unfolding f by simp
  then show ?thesis using d f by blast
qed

text \<open>
  Claim C3 at the callsign \<open>FAF123\<close>. The table lists \<open>FAF\<close> for France and, further
  down, for Finland; the later entry replaces the value of the earlier one, so the
  program answers Finland where the rule listed first says France.
\<close>

theorem duplicate_prefix_overwritten:
  "map country (fst (find_presidential_aircraft no_geocoder
     (snapshot [track ''000001'' ''FAF123  '']) empty_geo)) = [''Finland''] \<and>
   first_listed_rule VIP_CALLSIGN_PATTERNS_entries ''FAF123  '' = Some ''France''"
proof -
  have "\<not> dict_contains PRESIDENTIAL_AIRCRAFT (track_id (track ''000001'' ''FAF123  ''))"
    by (simp add: dict_contains_def track_id_track lower_000001 registry_000001)
  then have "country (emitted_info no_geocoder (track ''000001'' ''FAF123  '') empty_geo) = ''Finland''"
    by (simp add: country_emitted_pattern track_callsign_track normalize_FAF123 patterns_FAF123)
  moreover have "first_listed_rule VIP_CALLSIGN_PATTERNS_entries ''FAF123  '' = Some ''France''"
    by (simp add: first_listed_rule_def VIP_CALLSIGN_PATTERNS_entries_def normalize_FAF123)
  ultimately show ?thesis by (simp add: snapshot_one [OF tracked_FAF123])
qed

text \<open>
  Claim C4. When the request times out, the connection fails, the status is not a success
  or the body does not decode, \<open>get_military_aircraft\<close> returns the empty track list
  with the message of the failure and raises nothing; on that response
  \<open>find_presidential_aircraft\<close> returns the empty list.
\<close>

theorem transport_failure_empty:
  "get_military_aircraft (GetRaises (Timeout m)) = Inr \<lparr>resp_ac = Some [], resp_msg = Some m\<rparr> \<and>
   get_military_aircraft (GetRaises (ConnectionError m)) =
     Inr \<lparr>resp_ac = Some [], resp_msg = Some m\<rparr> \<and>
   get_military_aircraft (StatusRaises m) = Inr \<lparr>resp_ac = Some [], resp_msg = Some m\<rparr> \<and>
   get_military_aircraft (JsonRaises m) = Inr \<lparr>resp_ac = Some [], resp_msg = Some m\<rparr> \<and>
   find_presidential_aircraft e \<lparr>resp_ac = Some [], resp_msg = Some m\<rparr> g = ([], g)"
  by (simp add: get_military_aircraft_def find_presidential_aircraft_def get_or_def)

section \<open>The geolocation cache\<close>

lemma dict_get_dict_set:
  "dict_get (dict_set d k v) k' = (if k' = k then Some v else dict_get d k')"
  by (simp add: dict_get_def map_of_dict_set)















section \<open>The catalog variant\<close>

lemma load_rows_get:
  "dict_get (load_rows rows database) k =
     (case find (\<lambda>row. row_icao row = k \<and> length (row_icao row) = 6) (rev rows) of
        None \<Rightarrow> dict_get database k
      | Some row \<Rightarrow> Some (row_record row))"
proof (induction rows arbitrary: database)
  case Nil
  show ?case by simp
next
  case (Cons row rows)
  show ?case
    by (auto simp: Cons.IH Let_def find_append dict_get_dict_set split: option.splits)
qed

text \<open>
  Claim C6, as amended. An identifier is a key of the loaded database if and only if some
  row has it as its identifier column, lowercased and trimmed, with exactly 6 characters;
  the characters are not checked to be hexadecimal. Rows of another length are skipped
  and the load goes on; the record kept for a key is that of the last such row.
\<close>

theorem catalog_row_loaded:
  "load_aircraft_database (CsvRows rows) = Inr (load_rows rows []) \<and>
   (dict_contains (load_rows rows []) k \<longleftrightarrow>
      (\<exists>row \<in> set rows. row_icao row = k \<and> length (row_icao row) = 6)) \<and>
   dict_get (load_rows rows []) k =
     map_option row_record
       (find (\<lambda>row. row_icao row = k \<and> length (row_icao row) = 6) (rev rows))"
proof -
  have g: "dict_get (load_rows rows []) k =
     map_option row_record
       (find (\<lambda>row. row_icao row = k \<and> length (row_icao row) = 6) (rev rows))"
    by (simp add: load_rows_get) (simp add: dict_get_def split: option.splits)
  have "dict_contains (load_rows rows []) k \<longleftrightarrow>
      (\<exists>row \<in> set rows. row_icao row = k \<and> length (row_icao row) = 6)"
    unfolding dict_contains_def g by (auto simp: find_None_iff)
  then show ?thesis using g by simp
qed

lemma row_icao_Z: "row_icao [(''$ICAO'', ''ZZZZZZ ''), (''$Operator'', ''Nobody'')] = ''zzzzzz''"
  by code_simp

lemma row_icao_short: "row_icao [(''$ICAO'', ''AE01''), (''$Operator'', ''Short'')] = ''ae01''"
  by code_simp

lemma not_hex_Z: "\<not> is_hex6 ''zzzzzz''"
  by code_simp

text \<open>An instance of the amended C6: a row of length 4 is skipped, the next one loaded.\<close>

theorem catalog_row_loaded_witness:
  "dict_contains
     (load_rows [[(''$ICAO'', ''AE01''), (''$Operator'', ''Short'')],
                 [(''$ICAO'', ''ZZZZZZ ''), (''$Operator'', ''Nobody'')]] []) ''zzzzzz'' \<and>
   \<not> dict_contains
     (load_rows [[(''$ICAO'', ''AE01''), (''$Operator'', ''Short'')],
                 [(''$ICAO'', ''ZZZZZZ ''), (''$Operator'', ''Nobody'')]] []) ''ae01''"
  using catalog_row_loaded
      [of "[[(''$ICAO'', ''AE01''), (''$Operator'', ''Short'')],
            [(''$ICAO'', ''ZZZZZZ ''), (''$Operator'', ''Nobody'')]]" "''zzzzzz''"]
    catalog_row_loaded
      [of "[[(''$ICAO'', ''AE01''), (''$Operator'', ''Short'')],
            [(''$ICAO'', ''ZZZZZZ ''), (''$Operator'', ''Nobody'')]]" "''ae01''"]
  by (simp add: row_icao_Z row_icao_short)

text \<open>
  Claim C6 as stated fails: a row whose identifier has 6 characters that are not
  hexadecimal digits is loaded.
\<close>

theorem catalog_row_loaded_counterexample:
  "load_aircraft_database (CsvRows [[(''$ICAO'', ''ZZZZZZ ''), (''$Operator'', ''Nobody'')]]) =
     Inr [(''zzzzzz'', row_record [(''$ICAO'', ''ZZZZZZ ''), (''$Operator'', ''Nobody'')])] \<and>
   row_icao [(''$ICAO'', ''ZZZZZZ ''), (''$Operator'', ''Nobody'')] = ''zzzzzz'' \<and>
   \<not> is_hex6 ''zzzzzz''"
  by (simp add: row_icao_Z not_hex_Z Let_def)

text \<open>
  Claim C7, as amended. When the catalog file is missing, the database is empty and
  \<open>main\<close> returns after the message that the database could not be loaded: it does not
  query the data source and hands no list to the display.
\<close>

theorem missing_catalog_ends_run:
  "load_aircraft_database CsvMissing = Inr [] \<and> main2 e CsvMissing h g = NoDatabase"
  by (simp add: main2_def)

text \<open>
  Claim C7 as stated fails: with the catalog missing and a data source that answers with
  a known aircraft, the run ends without a classified list.
\<close>

theorem missing_catalog_counterexample:
  "main2 no_geocoder CsvMissing (JsonReturns (snapshot [track ''AE001F'' ''SAM123''])) empty_geo =
     NoDatabase"
  by (simp add: main2_def)

lemma parse_tracked_absent:
  "\<not> dict_contains db (track_id ac) \<Longrightarrow> parse_tracked_aircraft e ac db g = (None, g)"
  by (simp add: parse_tracked_aircraft_def dict_contains_def track_id_def Let_def)

lemma parse_tracked_present:
  "dict_contains db (track_id ac) \<Longrightarrow>
   \<exists>a g'. parse_tracked_aircraft e ac db g = (Some a, g') \<and> ta_icao_hex a = upper (track_id ac)"
  by (auto simp: parse_tracked_aircraft_def dict_contains_def track_id_def Let_def
      split: prod.splits)

lemma tracked_loop_members:
  "a \<in> set (fst (tracked_loop e acs db tracked g)) \<Longrightarrow>
   a \<in> set tracked \<or>
   (\<exists>ac \<in> set acs. dict_contains db (track_id ac) \<and> ta_icao_hex a = upper (track_id ac))"
proof (induction acs arbitrary: tracked g)
  case Nil
  then show ?case by simp
next
  case (Cons ac rest)
  show ?case
  proof (cases "dict_contains db (track_id ac)")
    case False
    then show ?thesis using Cons.prems Cons.IH [of tracked g]
      by (auto simp: parse_tracked_absent)
  next
    case True
    from parse_tracked_present [OF True, of e g] obtain x g' where
      x: "parse_tracked_aircraft e ac db g = (Some x, g')" "ta_icao_hex x = upper (track_id ac)"
      by blast
    then show ?thesis using Cons.prems Cons.IH [of "tracked @ [x]" g'] True
      by auto
  qed
qed

lemma main2_Tracked:
  "main2 e csv h g = Tracked xs \<Longrightarrow>
   \<exists>database acs. load_aircraft_database csv = Inr database \<and>
     xs = fst (tracked_loop e acs database [] g)"
  by (auto simp: main2_def split: sum.splits if_splits)

text \<open>
  Claim C10. In the second variant a track whose lowercased identifier is not a key of
  the database is dropped, whatever its callsign, with no change of the geolocation
  state; every aircraft that the matching loop collects, and every aircraft of a list
  that \<open>main\<close> reaches the display with, has its identifier in the database.
\<close>

theorem registry_only_matching:
  "(\<not> dict_contains db (track_id ac) \<longrightarrow> parse_tracked_aircraft e ac db g = (None, g)) \<and>
   (\<forall>a \<in> set (fst (tracked_loop e acs db [] g)).
      dict_contains db (lower (ta_icao_hex a)) \<and>
      (\<exists>ac \<in> set acs. ta_icao_hex a = upper (track_id ac))) \<and>
   (\<forall>xs. main2 e csv h g = Tracked xs \<longrightarrow>
      (\<exists>database. load_aircraft_database csv = Inr database \<and>
         (\<forall>a \<in> set xs. dict_contains database (lower (ta_icao_hex a)))))"
proof (intro conjI impI allI ballI)
  assume "\<not> dict_contains db (track_id ac)"
  then show "parse_tracked_aircraft e ac db g = (None, g)" by (rule parse_tracked_absent)
next
  fix a
  assume "a \<in> set (fst (tracked_loop e acs db [] g))"
  from tracked_loop_members [OF this] obtain ac where
    ac: "ac \<in> set acs" "dict_contains db (track_id ac)" "ta_icao_hex a = upper (track_id ac)"
    by auto
  show "dict_contains db (lower (ta_icao_hex a))"
    using ac by (simp add: track_id_lowered)
  show "\<exists>ac \<in> set acs. ta_icao_hex a = upper (track_id ac)" using ac by blast
next
  fix xs
  assume m: "main2 e csv h g = Tracked xs"
  from main2_Tracked [OF m] obtain database acs' where
    d: "load_aircraft_database csv = Inr database"
    and x: "xs = fst (tracked_loop e acs' database [] g)"
    by blast
  have "\<forall>a \<in> set xs. dict_contains database (lower (ta_icao_hex a))"
  proof
    fix a
    assume "a \<in> set xs"
    then have "a \<in> set (fst (tracked_loop e acs' database [] g))"
      by (simp add: x)
    from tracked_loop_members [OF this] show "dict_contains database (lower (ta_icao_hex a))"
      by (auto simp: track_id_lowered)
  qed
  then show "\<exists>database. load_aircraft_database csv = Inr database \<and>
         (\<forall>a \<in> set xs. dict_contains database (lower (ta_icao_hex a)))"
    using d by blast
qed


lemma row_icao_sample: "row_icao (hd sample_rows) = ''ae001f''"
  by code_simp

lemma sample_database:
  "load_rows sample_rows [] = [(''ae001f'', row_record (hd sample_rows))]"
  using row_icao_sample by (simp add: sample_rows_def Let_def)

text \<open>
  An instance of C10: a track outside the database whose callsign the pattern table of
  the first variant resolves to a country.
\<close>

theorem registry_only_matching_witness:
  "\<not> dict_contains (load_rows sample_rows []) (track_id (track ''000001'' ''AF1'')) \<and>
   match_callsign VIP_CALLSIGN_PATTERNS (track_callsign (track ''000001'' ''AF1'')) = Some ''USA'' \<and>
   parse_tracked_aircraft no_geocoder (track ''000001'' ''AF1'') (load_rows sample_rows []) empty_geo =
     (None, empty_geo)"
proof -
  have a: "\<not> dict_contains (load_rows sample_rows []) (track_id (track ''000001'' ''AF1''))"
    by (simp add: sample_database dict_contains_def dict_get_def track_id_track lower_000001)
  have p: "match_callsign VIP_CALLSIGN_PATTERNS (track_callsign (track ''000001'' ''AF1'')) =
      Some ''USA''"
    by (simp add: track_callsign_track normalize_AF1 patterns_AF1)
  from registry_only_matching
    [of "load_rows sample_rows []" "track ''000001'' ''AF1''" no_geocoder empty_geo] a
  have "parse_tracked_aircraft no_geocoder (track ''000001'' ''AF1'') (load_rows sample_rows [])
      empty_geo = (None, empty_geo)"
    by blast
  then show ?thesis using a p by simp
qed

section \<open>Overflight country and display order\<close>

lemma key_greenwich: "cache_key (103 / 2) 0 = ''51.50,0.00''"
  by code_simp

lemma country_names_GB: "dict_get country_names ''GB'' = Some ''UK''"
  by (simp add: country_names_def dict_get_literal)

lemma country_names2_GB: "dict_get country_names2 ''GB'' = Some ''UK''"
  by (simp add: country_names2_def dict_get_literal)

lemma lower_AE001F': "track_id (track_at ''AE001F'' f la lo) = ''ae001f''"
  by (simp add: track_id_def track_at_def track_def get_or_def lower_AE001F)

text \<open>
  Claim C8 at a track on the prime meridian (latitude 51.5, longitude 0). The position is
  present, and \<open>get_location\<close> resolves it to \<open>UK\<close>; but \<open>lat and lon\<close> is false for
  a zero coordinate, so both variants leave the overflight country empty and do not
  invoke the resolver.
\<close>

theorem zero_coordinate_not_resolved:
  "parse_aircraft (geocoder_of ''Greenwich'' ''GB'') (track_at ''AE001F'' ''SAM123'' (103 / 2) 0)
     PRESIDENTIAL_AIRCRAFT empty_geo =
     (fst (parse_aircraft (geocoder_of ''Greenwich'' ''GB'')
             (track_at ''AE001F'' ''SAM123'' (103 / 2) 0) PRESIDENTIAL_AIRCRAFT empty_geo)
        \<lparr>over_country := []\<rparr>, empty_geo) \<and>
   latitude (fst (parse_aircraft (geocoder_of ''Greenwich'' ''GB'')
             (track_at ''AE001F'' ''SAM123'' (103 / 2) 0) PRESIDENTIAL_AIRCRAFT empty_geo)) =
     Some (103 / 2) \<and>
   longitude (fst (parse_aircraft (geocoder_of ''Greenwich'' ''GB'')
             (track_at ''AE001F'' ''SAM123'' (103 / 2) 0) PRESIDENTIAL_AIRCRAFT empty_geo)) =
     Some 0 \<and>
   get_location (geocoder_of ''Greenwich'' ''GB'') (Some (103 / 2)) (Some 0) empty_geo =
     (''UK'', \<lparr>location_cache = [(''51.50,0.00'', ''UK'')], rg_calls = [(103 / 2, 0)]\<rparr>) \<and>
   map_option ta_over_country
     (fst (parse_tracked_aircraft (geocoder_of ''Greenwich'' ''GB'')
        (track_at ''AE001F'' ''SAM123'' (103 / 2) 0) (load_rows sample_rows []) empty_geo)) =
     Some [] \<and>
   get_location2 (geocoder_of ''Greenwich'' ''GB'') (Some (103 / 2)) (Some 0) empty_geo =
     (''UK'', \<lparr>location_cache = [(''51.50,0.00'', ''UK'')], rg_calls = [(103 / 2, 0)]\<rparr>)"
proof -
  have a: "parse_aircraft (geocoder_of ''Greenwich'' ''GB'') (track_at ''AE001F'' ''SAM123'' (103 / 2) 0)
     PRESIDENTIAL_AIRCRAFT empty_geo =
     (fst (parse_aircraft (geocoder_of ''Greenwich'' ''GB'')
             (track_at ''AE001F'' ''SAM123'' (103 / 2) 0) PRESIDENTIAL_AIRCRAFT empty_geo)
        \<lparr>over_country := []\<rparr>, empty_geo)"
    by (simp add: parse_aircraft_def track_at_def track_def truthy_def Let_def)
  have b: "latitude (fst (parse_aircraft (geocoder_of ''Greenwich'' ''GB'')
             (track_at ''AE001F'' ''SAM123'' (103 / 2) 0) PRESIDENTIAL_AIRCRAFT empty_geo)) =
     Some (103 / 2) \<and>
   longitude (fst (parse_aircraft (geocoder_of ''Greenwich'' ''GB'')
             (track_at ''AE001F'' ''SAM123'' (103 / 2) 0) PRESIDENTIAL_AIRCRAFT empty_geo)) =
     Some 0"
    by (simp add: parse_aircraft_def track_at_def track_def truthy_def Let_def)
  have c: "get_location (geocoder_of ''Greenwich'' ''GB'') (Some (103 / 2)) (Some 0) empty_geo =
     (''UK'', \<lparr>location_cache = [(''51.50,0.00'', ''UK'')], rg_calls = [(103 / 2, 0)]\<rparr>)"
    by (simp add: get_location_def get_location_with_def geocoder_of_def empty_geo_def
        key_greenwich dict_contains_def dict_get_def get_or_def Let_def
        country_names_GB [unfolded dict_get_def])
  have d: "map_option ta_over_country
     (fst (parse_tracked_aircraft (geocoder_of ''Greenwich'' ''GB'')
        (track_at ''AE001F'' ''SAM123'' (103 / 2) 0) (load_rows sample_rows []) empty_geo)) =
     Some []"
    using lower_AE001F' [of "''SAM123''" "103 / 2" 0]
    by (simp add: parse_tracked_aircraft_def sample_database track_id_def dict_get_def
        track_at_def track_def truthy_def Let_def)
  have e: "get_location2 (geocoder_of ''Greenwich'' ''GB'') (Some (103 / 2)) (Some 0) empty_geo =
     (''UK'', \<lparr>location_cache = [(''51.50,0.00'', ''UK'')], rg_calls = [(103 / 2, 0)]\<rparr>)"
    by (simp add: get_location2_def get_location_with_def geocoder_of_def empty_geo_def
        key_greenwich dict_contains_def dict_get_def get_or_def Let_def
        country_names2_GB [unfolded dict_get_def])
  show ?thesis using a b c d e by blast
qed




lemma sample_key: "rich_key (sample_info h ''France'' ''Falcon'') = (1, ''France'', ''Falcon'')"
  by (simp add: rich_key_def sample_info_def PRIORITY_COUNTRIES_def)



end
